theory Spec2Isabelle
  imports Main "HOL-Library.Word" "HOL-Library.AList"
begin

unbundle bit_operations_syntax

section \<open>Machine types\<close>

text \<open>
  \<open>time_t\<close> and \<open>long\<close> are signed 64-bit integers on the target, \<open>int\<close> a 32-bit one.
  They are words here: addition and subtraction wrap around, \<open>sint\<close> reads the signed
  value and \<open>(time_t)-1\<close> is the word \<open>-1\<close>.
\<close>

type_synonym time_t = "64 word"
type_synonym c_long = "64 word"
type_synonym c_int = "32 word"

section \<open>JSON values (pbnjson::JValue)\<close>

text \<open>
  The DOM the handlers read and build.  \<open>JInvalid\<close> is the invalid value that
  \<open>operator[]\<close> gives for a key that is missing.  An object keeps its members in
  insertion order.  Numbers are the integral ones: a non-integral number never passes the
  \<open>"type": "integer"\<close> schema of the fields the handlers convert.
\<close>

datatype jvalue =
    JInvalid
  | JNull
  | JBool bool
  | JNumber int
  | JString string
  | JArray "jvalue list"
  | JObject "(string \<times> jvalue) list"

fun isObject :: "jvalue \<Rightarrow> bool" where
  "isObject (JObject kvs) = True"
| "isObject v = False"

fun isNumber :: "jvalue \<Rightarrow> bool" where
  "isNumber (JNumber n) = True"
| "isNumber v = False"

text \<open>\<open>value[key]\<close>: the member of an object, the invalid value otherwise.\<close>

fun jget :: "jvalue \<Rightarrow> string \<Rightarrow> jvalue" where
  "jget (JObject kvs) k = (case map_of kvs k of Some v \<Rightarrow> v | None \<Rightarrow> JInvalid)"
| "jget v k = JInvalid"

text \<open>\<open>value.put(key, v)\<close>: replaces the member in place or appends it.\<close>

fun jput :: "string \<Rightarrow> jvalue \<Rightarrow> jvalue \<Rightarrow> jvalue" where
  "jput k v (JObject kvs) = JObject (AList.update k v kvs)"
| "jput k v other = other"

text \<open>\<open>value.asBool()\<close>: the boolean, false for anything else.\<close>

fun asBool :: "jvalue \<Rightarrow> bool" where
  "asBool (JBool b) = b"
| "asBool v = False"

text \<open>
  \<open>toInteger<T>(value)\<close> for a 64-bit \<open>T\<close> and \<open>toJValue(time_t)\<close>: a number converts
  to the machine integer and back through its signed value.
\<close>

fun toInteger :: "jvalue \<Rightarrow> 64 word" where
  "toInteger (JNumber n) = word_of_int n"
| "toInteger v = 0"

definition toJValue :: "time_t \<Rightarrow> jvalue" where
  "toJValue t = JNumber (sint t)"

text \<open>
  Modelled from the spec: \<open>createJsonReply\<close> of JSONUtils.h is not among the sources.
  Every response is "a JSON-like object with at least a boolean success indicator"; a
  failure is structured: the indicator with an error code and an error text.
\<close>

definition createJsonReply :: "bool \<Rightarrow> int \<Rightarrow> string \<Rightarrow> jvalue" where
  "createJsonReply returnValue errorCode errorText =
     (if returnValue then JObject [(''returnValue'', JBool True)]
      else JObject [(''returnValue'', JBool False),
                    (''errorCode'', JNumber errorCode),
                    (''errorText'', JString errorText)])"

section \<open>Civil time through the C library (BroadcastTimeHandler.cpp, anonymous namespace)\<close>

text \<open>\<open>struct tm\<close> of \<open>time.h\<close>.\<close>

record tm =
  tm_sec :: int
  tm_min :: int
  tm_hour :: int
  tm_mday :: int
  tm_mon :: int
  tm_year :: int
  tm_wday :: int
  tm_yday :: int
  tm_isdst :: int

text \<open>
  The four C library functions \<open>toLocal\<close> and \<open>toUtc\<close> call.  They belong to the
  platform, not to the daemon, and read the process's configured zone (\<open>TZ\<close>), so they
  are a parameter of the model.  \<open>None\<close> is the null pointer \<open>localtime_r\<close> and
  \<open>gmtime_r\<close> return when they fail.
\<close>

record libc =
  localtime_r :: "time_t \<Rightarrow> tm option"
  gmtime_r :: "time_t \<Rightarrow> tm option"
  timegm :: "tm \<Rightarrow> time_t"
  timelocal :: "tm \<Rightarrow> time_t"

definition toLocal :: "libc \<Rightarrow> time_t \<Rightarrow> time_t" where
  "toLocal L utc =
     (case localtime_r L utc of
        None \<Rightarrow> - 1
      | Some localTm \<Rightarrow> timegm L localTm)"

definition toUtc :: "libc \<Rightarrow> time_t \<Rightarrow> time_t" where
  "toUtc L local =
     (case gmtime_r L local of
        None \<Rightarrow> - 1
      | Some localTm \<Rightarrow> timelocal L (localTm\<lparr>tm_isdst := - 1\<rparr>))"

section \<open>What the handlers take from their surroundings\<close>

text \<open>
  One run of a handler reads the following from outside the sources at hand:
  \<^item> \<open>sys_libc\<close>: the C library with the configured zone;
  \<^item> \<open>sys_time n\<close>: what the \<open>n\<close>-th call of \<open>time(0)\<close> made during the run returns;
  \<^item> \<open>sys_currentStamp\<close>: \<open>TimePrefsHandler::currentStamp()\<close>;
  \<^item> \<open>sys_evaluateDelay sec nsec\<close>: \<open>ClockHandler::evaluateDelay\<close> on a \<open>timespec\<close>;
  \<^item> \<open>sys_timestampJson\<close>: \<open>ClockHandler::timestampJson()\<close>;
  \<^item> \<open>sys_tmToJValue\<close>: \<open>toJValue(tm)\<close> of JSONUtils.h;
  \<^item> \<open>sys_SCHEMA_TIMESTAMP\<close>: the values the macro \<open>SCHEMA_TIMESTAMP\<close> admits;
  \<^item> \<open>sys_bt_accepts\<close> and \<open>sys_bt_stale\<close>: the two decisions of the Broadcast Time
    Tracker the spec leaves open (see below).
\<close>

record sys =
  sys_libc :: libc
  sys_time :: "nat \<Rightarrow> time_t"
  sys_currentStamp :: time_t
  sys_evaluateDelay :: "time_t \<Rightarrow> c_long \<Rightarrow> time_t"
  sys_timestampJson :: jvalue
  sys_tmToJValue :: "tm \<Rightarrow> jvalue"
  sys_SCHEMA_TIMESTAMP :: "jvalue \<Rightarrow> bool"
  sys_bt_accepts :: "time_t \<Rightarrow> time_t \<Rightarrow> time_t \<Rightarrow> bool"
  sys_bt_stale :: "time_t \<Rightarrow> bool"

section \<open>The Broadcast Time Tracker (class BroadcastTime)\<close>

text \<open>
  Modelled from the spec: BroadcastTime.h and BroadcastTime.cpp are not among the
  sources.  The tracker "holds the most recent broadcast-supplied UTC/local pair and a
  staleness timestamp", with the contract \<open>set(utc, local, observedAt) \<rightarrow> bool\<close> and
  \<open>get() \<rightarrow> (utc, local)|none\<close>; a sample is "considered stale after a timeout", and a
  failure keeps the previous committed value.  When \<open>set\<close> refuses a sample and when a
  sample counts as stale is not said: both are parameters.
\<close>

record broadcast_sample =
  bs_utc :: time_t
  bs_local :: time_t
  bs_stamp :: time_t

type_synonym BroadcastTime = "broadcast_sample option"

definition BroadcastTime_set ::
  "sys \<Rightarrow> time_t \<Rightarrow> time_t \<Rightarrow> time_t \<Rightarrow> BroadcastTime \<Rightarrow> bool \<times> BroadcastTime" where
  "BroadcastTime_set S utc local stamp bt =
     (if sys_bt_accepts S utc local stamp
      then (True, Some \<lparr>bs_utc = utc, bs_local = local, bs_stamp = stamp\<rparr>)
      else (False, bt))"

definition BroadcastTime_avail :: "sys \<Rightarrow> BroadcastTime \<Rightarrow> bool" where
  "BroadcastTime_avail S bt =
     (case bt of None \<Rightarrow> False | Some s \<Rightarrow> \<not> sys_bt_stale S (bs_stamp s))"

definition BroadcastTime_get :: "sys \<Rightarrow> BroadcastTime \<Rightarrow> (time_t \<times> time_t) option" where
  "BroadcastTime_get S bt =
     (case bt of
        None \<Rightarrow> None
      | Some s \<Rightarrow> if sys_bt_stale S (bs_stamp s) then None else Some (bs_utc s, bs_local s))"

section \<open>TimePrefsHandler: the fields and inline predicates (TimePrefsHandler.h)\<close>

text \<open>The anonymous enum \<open>{ NITZ_TimeEnable = 1, NITZ_TZEnable = 2 }\<close>.\<close>

definition NITZ_TimeEnable :: c_int where
  "NITZ_TimeEnable = 1"

definition NITZ_TZEnable :: c_int where
  "NITZ_TZEnable = 2"

record TimePrefsHandler =
  m_nitzSetting :: c_int
  m_nitzTimeZoneAvailable :: bool
  m_broadcastTime :: BroadcastTime
  m_systemTimeSourceTag :: string

text \<open>A C integer converts to \<open>bool\<close> as "not zero".\<close>

definition isManualTimeUsed :: "TimePrefsHandler \<Rightarrow> bool" where
  "isManualTimeUsed h = (\<not> (m_nitzSetting h AND NITZ_TimeEnable \<noteq> 0))"

definition isSystemTimeBroadcastEffective :: "sys \<Rightarrow> TimePrefsHandler \<Rightarrow> bool" where
  "isSystemTimeBroadcastEffective S h =
     (isManualTimeUsed h \<or> \<not> BroadcastTime_avail S (m_broadcastTime h))"

definition isNITZTimeEnabled :: "TimePrefsHandler \<Rightarrow> bool" where
  "isNITZTimeEnabled h = (m_nitzSetting h AND NITZ_TimeEnable \<noteq> 0)"

definition isNITZTZEnabled :: "TimePrefsHandler \<Rightarrow> bool" where
  "isNITZTZEnabled h =
     (m_nitzSetting h AND NITZ_TZEnable \<noteq> 0 \<and> m_nitzTimeZoneAvailable h)"

definition isNITZDisabled :: "TimePrefsHandler \<Rightarrow> bool" where
  "isNITZDisabled h =
     ((\<not> (m_nitzSetting h AND NITZ_TimeEnable \<noteq> 0))
      \<and> (\<not> (m_nitzSetting h AND NITZ_TZEnable \<noteq> 0)))"

definition getSystemTimeSource :: "TimePrefsHandler \<Rightarrow> string" where
  "getSystemTimeSource h = m_systemTimeSourceTag h"

section \<open>What a handler does to the outside\<close>

text \<open>
  JSON encoding and the message bus are collaborators of the daemon.  A run of a handler
  yields the list of what it hands to them, in order:
  \<^item> \<open>Reply schema response\<close>: the response, serialised against the schema, given to
    \<open>LSMessageReply\<close> for the caller;
  \<^item> \<open>ParserErrorReply ctx\<close>: the reply the request parser sends to the caller itself
    when it rejects a payload (mode \<open>EValidateAndErrorAlways\<close>).  Modelled from the
    spec: \<open>LSMessageJsonParser\<close> is not among the sources; malformed input is "rejected
    at the boundary, surfaced to the caller as a structured failure";
  \<^item> \<open>SubscriptionAdd key\<close>: \<open>LSSubscriptionAdd\<close> of the caller under the key;
  \<^item> \<open>SubscriptionReply key payload\<close>: the payload serialised and given to
    \<open>LSSubscriptionReply\<close>, which delivers it to every subscriber of the key;
  \<^item> \<open>DeprecatedClockChange offset tag stamp\<close>: the signal \<open>deprecatedClockChange\<close>
    fired with these arguments.
\<close>

datatype schema = schemaGeneric | schemaGetBroadcastTimeReply

datatype event =
    Reply schema jvalue
  | ParserErrorReply string
  | SubscriptionAdd string
  | SubscriptionReply string jvalue
  | DeprecatedClockChange time_t string time_t

definition effectiveBroadcastKey :: string where
  "effectiveBroadcastKey = ''effectiveBroadcastKey''"

section \<open>The schemas of the replies and the local \<open>reply\<close> (BroadcastTimeHandler.cpp)\<close>

fun isBoolean :: "jvalue \<Rightarrow> bool" where
  "isBoolean (JBool b) = True"
| "isBoolean v = False"

fun isString :: "jvalue \<Rightarrow> bool" where
  "isString (JString x) = True"
| "isString v = False"

text \<open>\<open>{ "type": "integer", "minimum": lo }\<close> and the same with a \<open>"maximum"\<close>.\<close>

fun integerAtLeast :: "int \<Rightarrow> jvalue \<Rightarrow> bool" where
  "integerAtLeast lo (JNumber n) = (lo \<le> n)"
| "integerAtLeast lo v = False"

fun integerBetween :: "int \<Rightarrow> int \<Rightarrow> jvalue \<Rightarrow> bool" where
  "integerBetween lo hi (JNumber n) = (lo \<le> n \<and> n \<le> hi)"
| "integerBetween lo hi v = False"

text \<open>The macro \<open>SCHEMA_LOCALTIME\<close>: an object with exactly the six required members,
  each an integer in its range.\<close>

definition SCHEMA_LOCALTIME :: "jvalue \<Rightarrow> bool" where
  "SCHEMA_LOCALTIME v =
     (case v of
        JObject kvs \<Rightarrow>
          list_all (\<lambda>(k, x).
              if k = ''year'' then integerAtLeast 1900 x
              else if k = ''month'' then integerBetween 1 12 x
              else if k = ''day'' then integerBetween 1 31 x
              else if k = ''hour'' then integerBetween 0 23 x
              else if k = ''minute'' then integerBetween 0 59 x
              else if k = ''second'' then integerBetween 0 59 x
              else False) kvs
          \<and> ''year'' \<in> set (map fst kvs)
          \<and> ''month'' \<in> set (map fst kvs)
          \<and> ''day'' \<in> set (map fst kvs)
          \<and> ''hour'' \<in> set (map fst kvs)
          \<and> ''minute'' \<in> set (map fst kvs)
          \<and> ''second'' \<in> set (map fst kvs)
      | _ \<Rightarrow> False)"

text \<open>
  What each schema admits.  \<open>schemaGeneric\<close> is \<open>{}\<close> and admits every value.
  \<open>schemaGetBroadcastTimeReply\<close> is an object whose members are among those listed, each
  of its type, with \<open>returnValue\<close> (the constant true) and \<open>local\<close> required and no other
  member.
\<close>

definition schema_admits :: "sys \<Rightarrow> schema \<Rightarrow> jvalue \<Rightarrow> bool" where
  "schema_admits S sch v =
     (case sch of
        schemaGeneric \<Rightarrow> True
      | schemaGetBroadcastTimeReply \<Rightarrow>
          (case v of
             JObject kvs \<Rightarrow>
               list_all (\<lambda>(k, x).
                   if k = ''returnValue'' then x = JBool True
                   else if k = ''subscribed'' then isBoolean x
                   else if k = ''utc'' then isNumber x
                   else if k = ''adjustedUtc'' then isNumber x
                   else if k = ''local'' then isNumber x
                   else if k = ''localtime'' then SCHEMA_LOCALTIME x
                   else if k = ''systemTimeSource'' then isString x
                   else if k = ''timestamp'' then sys_SCHEMA_TIMESTAMP S x
                   else False) kvs
               \<and> ''returnValue'' \<in> set (map fst kvs)
               \<and> ''local'' \<in> set (map fst kvs)
           | _ \<Rightarrow> False))"

text \<open>
  \<open>reply(handle, message, response, schema)\<close>: when the serialiser refuses the response
  against the schema the function logs and returns, and nothing is sent; otherwise the
  text goes to \<open>LSMessageReply\<close>.
\<close>

definition reply :: "sys \<Rightarrow> jvalue \<Rightarrow> schema \<Rightarrow> event list" where
  "reply S response sch =
     (if \<not> schema_admits S sch response then [] else [Reply sch response])"

section \<open>The broadcast time handlers (BroadcastTimeHandler.cpp)\<close>

definition addLocalTime :: "sys \<Rightarrow> jvalue \<Rightarrow> time_t \<Rightarrow> jvalue" where
  "addLocalTime S root local =
     (case gmtime_r (sys_libc S) local of
        None \<Rightarrow> root
      | Some tmLocal \<Rightarrow> jput ''localtime'' (sys_tmToJValue S tmLocal) root)"

text \<open>
  \<open>answerEffectiveBroadcastTime(answer, timePrefsHandler, broadcastTime)\<close>; \<open>now\<close> is what
  its call of \<open>time(0)\<close> returns.  The result is the returned flag and the answer as the
  function leaves it.  The source tag is read through \<open>TimePrefsHandler::instance()\<close>,
  the one handler the daemon creates.
\<close>

definition answerEffectiveBroadcastTime ::
  "sys \<Rightarrow> time_t \<Rightarrow> jvalue \<Rightarrow> TimePrefsHandler \<Rightarrow> BroadcastTime \<Rightarrow> bool \<times> jvalue" where
  "answerEffectiveBroadcastTime S now answer timePrefsHandler broadcastTime =
     (let (adjustedUtc, local, systemTimeUsed) =
        (if isSystemTimeBroadcastEffective S timePrefsHandler
         then (now, toLocal (sys_libc S) now, True)
         else (case BroadcastTime_get S broadcastTime of
                 None \<Rightarrow> (now, toLocal (sys_libc S) now, True)
               | Some (utc, local) \<Rightarrow> (toUtc (sys_libc S) local, local, False)))
      in if local = - 1
         then (False,
               jput ''errorText'' (JString ''Failed to get localtime'')
                 (jput ''errorCode'' (JNumber (- 1)) answer))
         else
           (let a1 = jput ''adjustedUtc'' (toJValue adjustedUtc) answer;
                a2 = jput ''local'' (toJValue local) a1;
                a3 = jput ''timestamp'' (sys_timestampJson S) a2;
                a4 = addLocalTime S a3 local
            in (True,
                if systemTimeUsed
                then jput ''systemTimeSource''
                       (JString (getSystemTimeSource timePrefsHandler)) a4
                else a4)))"

text \<open>
  \<open>TimePrefsHandler::postBroadcastEffectiveTimeChange()\<close>: nothing is posted when the
  answer cannot be built.
\<close>

definition postBroadcastEffectiveTimeChange ::
  "sys \<Rightarrow> time_t \<Rightarrow> TimePrefsHandler \<Rightarrow> event list" where
  "postBroadcastEffectiveTimeChange S now h =
     (case answerEffectiveBroadcastTime S now (JObject []) h (m_broadcastTime h) of
        (False, answer) \<Rightarrow> []
      | (True, answer) \<Rightarrow> [SubscriptionReply effectiveBroadcastKey answer])"

text \<open>
  The schema of \<open>/time/setBroadcastTime\<close>: an object whose members are among \<open>utc\<close>,
  \<open>local\<close> (integers, both required) and \<open>timestamp\<close> (a \<open>SCHEMA_TIMESTAMP\<close>), with no
  other member.  The numbers of the model are the integers, so \<open>isNumber\<close> is the test
  for \<open>"type": "integer"\<close>.
\<close>

definition schemaSetBroadcastTime :: "sys \<Rightarrow> jvalue \<Rightarrow> bool" where
  "schemaSetBroadcastTime S payload =
     (case payload of
        JObject kvs \<Rightarrow>
          list_all (\<lambda>(k, v).
              if k = ''utc'' then isNumber v
              else if k = ''local'' then isNumber v
              else if k = ''timestamp'' then sys_SCHEMA_TIMESTAMP S v
              else False) kvs
          \<and> ''utc'' \<in> set (map fst kvs)
          \<and> ''local'' \<in> set (map fst kvs)
      | _ \<Rightarrow> False)"


text \<open>\<open>schemaSubscribeRequest\<close> names no type either: an object may have the boolean
  member \<open>subscribe\<close> and no other.\<close>

definition schemaSubscribeRequest :: "jvalue \<Rightarrow> bool" where
  "schemaSubscribeRequest payload =
     (case payload of
        JObject kvs \<Rightarrow>
          list_all (\<lambda>(k, v). k = ''subscribe'' \<and> isBoolean v) kvs
      | JInvalid \<Rightarrow> False
      | _ \<Rightarrow> True)"

text \<open>
  The condition of the \<open>if\<close> on \<open>timestamp\<close> in \<open>cbSetBroadcastTime\<close>, and the time
  values a request carries after the optional delay compensation (from the two
  \<open>toInteger\<close> calls to the end of that \<open>if\<close>).
\<close>

definition hasTimestamp :: "jvalue \<Rightarrow> bool" where
  "hasTimestamp request =
     (let timestamp = jget request ''timestamp''
      in isObject timestamp \<and> isNumber (jget timestamp ''sec'')
         \<and> isNumber (jget timestamp ''nsec''))"

definition compensatedTimes :: "sys \<Rightarrow> jvalue \<Rightarrow> time_t \<times> time_t" where
  "compensatedTimes S request =
     (let utc = toInteger (jget request ''utc'');
          local = toInteger (jget request ''local'');
          timestamp = jget request ''timestamp''
      in if hasTimestamp request
         then (let delay = sys_evaluateDelay S (toInteger (jget timestamp ''sec''))
                             (toInteger (jget timestamp ''nsec''))
               in (utc + delay, local + delay))
         else (utc, local))"

text \<open>
  \<open>TimePrefsHandler::cbSetBroadcastTime\<close>.  The result is what the handler hands to the
  outside and the handler's state afterwards.
\<close>

definition cbSetBroadcastTime ::
  "sys \<Rightarrow> TimePrefsHandler \<Rightarrow> jvalue \<Rightarrow> event list \<times> TimePrefsHandler" where
  "cbSetBroadcastTime S timePrefsHandler payload =
     (if \<not> schemaSetBroadcastTime S payload
      then ([ParserErrorReply ''cbSetBroadcastTime''], timePrefsHandler)
      else
        (let (utc, local) = compensatedTimes S payload;
             utcCurrent = sys_time S 0;
             utcOffset = utc - utcCurrent;
             adjustedUtcOffset = toUtc (sys_libc S) local - sys_time S 1;
             (stored, broadcastTime) =
               BroadcastTime_set S utc local (sys_currentStamp S)
                 (m_broadcastTime timePrefsHandler)
         in if \<not> stored
            then (reply S
                    (createJsonReply False (- 2) ''Failed to update broadcast time offsets'')
                    schemaGeneric,
                  timePrefsHandler)
            else
              (let h = timePrefsHandler\<lparr>m_broadcastTime := broadcastTime\<rparr>
               in ((if \<not> isManualTimeUsed h
                    then postBroadcastEffectiveTimeChange S (sys_time S 2) h else [])
                   @ [DeprecatedClockChange adjustedUtcOffset ''broadcast-adjusted'' utcCurrent,
                      DeprecatedClockChange utcOffset ''broadcast'' utcCurrent]
                   @ reply S (createJsonReply True 0 []) schemaGeneric,
                   h))))"


text \<open>
  \<open>TimePrefsHandler::cbGetEffectiveBroadcastTime\<close>; \<open>subscribed\<close> is what
  \<open>LSSubscriptionAdd\<close> returns when it is called.
\<close>

definition cbGetEffectiveBroadcastTime ::
  "sys \<Rightarrow> bool \<Rightarrow> TimePrefsHandler \<Rightarrow> jvalue \<Rightarrow> event list \<times> TimePrefsHandler" where
  "cbGetEffectiveBroadcastTime S subscribed timePrefsHandler payload =
     (if \<not> schemaSubscribeRequest payload
      then ([ParserErrorReply ''cbGetEffectiveBroadcastTime''], timePrefsHandler)
      else
        (case answerEffectiveBroadcastTime S (sys_time S 0) (JObject []) timePrefsHandler
                (m_broadcastTime timePrefsHandler) of
           (False, answer) \<Rightarrow>
             (reply S (jput ''returnValue'' (JBool False) answer) schemaGeneric,
              timePrefsHandler)
         | (True, answer) \<Rightarrow>
             (let a1 = jput ''returnValue'' (JBool True) answer;
                  a2 = jput ''timestamp'' (sys_timestampJson S) a1
              in if asBool (jget payload ''subscribe'')
                 then (SubscriptionAdd effectiveBroadcastKey
                         # reply S (jput ''subscribed'' (JBool subscribed) a2)
                             schemaGetBroadcastTimeReply,
                       timePrefsHandler)
                 else (reply S a2 schemaGetBroadcastTimeReply, timePrefsHandler))))"


section \<open>Setting preferences (PrefsFactory.cpp)\<close>

text \<open>
  A preferences handler is known by its pointer.  \<open>m_handlersMaps\<close> maps each key to the
  handler registered for it; \<open>getPrefsHandler\<close> is the lookup, with \<open>None\<close> for the null
  pointer.
\<close>

type_synonym PrefsHandlerPtr = nat

record PrefsFactory =
  m_handlersMaps :: "string \<rightharpoonup> PrefsHandlerPtr"

definition getPrefsHandler :: "PrefsFactory \<Rightarrow> string \<Rightarrow> PrefsHandlerPtr option" where
  "getPrefsHandler F key = m_handlersMaps F key"

text \<open>
  What \<open>cbSetPreferences\<close> takes from outside the sources at hand:
  \<^item> \<open>pe_fromString\<close>: \<open>JDomParser::fromString\<close>, with \<open>JInvalid\<close> for text that is not JSON;
  \<^item> \<open>pe_stringify\<close>: \<open>JValue::stringify\<close>;
  \<^item> \<open>pe_validate handler key value callerId\<close>: the handler's virtual \<open>validate\<close>;
  \<^item> \<open>pe_writable key value\<close>: whether the preferences database can write the entry.
\<close>

record prefs_env =
  pe_fromString :: "string \<Rightarrow> jvalue"
  pe_stringify :: "jvalue \<Rightarrow> string"
  pe_validate :: "PrefsHandlerPtr \<Rightarrow> string \<Rightarrow> jvalue \<Rightarrow> string \<Rightarrow> bool"
  pe_writable :: "string \<Rightarrow> string \<Rightarrow> bool"

text \<open>
  Modelled from the spec: PrefsDb is not among the sources.  The backend "persists and
  retrieves arbitrary string-valued settings"; a write that fails is reported to the
  caller and stores nothing.
\<close>

type_synonym PrefsDb = "string \<rightharpoonup> string"

definition PrefsDb_setPref :: "prefs_env \<Rightarrow> string \<Rightarrow> string \<Rightarrow> PrefsDb \<Rightarrow> bool \<times> PrefsDb" where
  "PrefsDb_setPref E key val db =
     (if pe_writable E key val then (True, db(key \<mapsto> val)) else (False, db))"

text \<open>
  What \<open>cbSetPreferences\<close> hands to the outside:
  \<^item> \<open>PostPrefChange key json\<close>: \<open>postPrefChangeValueIsCompleteString(key, json)\<close>, the
    post of the text to every subscriber of the key;
  \<^item> \<open>ValueChanged handler key value\<close>: the handler's virtual \<open>valueChanged\<close>;
  \<^item> \<open>PrefsReply result\<close>: the reply to the caller.
\<close>

datatype prefs_event =
    PostPrefChange string string
  | ValueChanged PrefsHandlerPtr string jvalue
  | PrefsReply jvalue

text \<open>The variables of the loop over the members of the payload.  The two counters
  are C \<open>int\<close>s that count members of one payload.\<close>

record prefs_loop =
  pl_db :: PrefsDb
  pl_success :: bool
  pl_savecount :: nat
  pl_errcount :: nat
  pl_events :: "prefs_event list"

text \<open>The body of the loop \<open>for (JValue::KeyValue pref: root.children())\<close>.\<close>

definition setPreference ::
  "prefs_env \<Rightarrow> PrefsFactory \<Rightarrow> string \<Rightarrow> prefs_loop \<Rightarrow> string \<times> jvalue \<Rightarrow> prefs_loop" where
  "setPreference E F callerId st pref =
     (let key = fst pref;
          val = pe_stringify E (snd pref);
          handler = getPrefsHandler F key;
          (savedPref, db) =
            (case handler of
               Some h \<Rightarrow>
                 if pe_validate E h key (snd pref) callerId
                 then PrefsDb_setPref E key val (pl_db st)
                 else (False, pl_db st)
             | None \<Rightarrow> PrefsDb_setPref E key val (pl_db st))
      in if savedPref
         then st\<lparr>pl_db := db,
                 pl_savecount := pl_savecount st + 1,
                 pl_events := pl_events st
                   @ [PostPrefChange key (pe_stringify E (JObject [(key, snd pref)]))]
                   @ (case handler of Some h \<Rightarrow> [ValueChanged h key (snd pref)] | None \<Rightarrow> []),
                 pl_success := True\<rparr>
         else st\<lparr>pl_db := db, pl_errcount := pl_errcount st + 1\<rparr>)"

text \<open>A message: its payload and application id, each possibly a null pointer.\<close>

record message =
  msg_payload :: "string option"
  msg_applicationId :: "string option"

definition prefsResult :: "bool \<Rightarrow> string \<Rightarrow> jvalue" where
  "prefsResult success errorText =
     (let result = JObject [(''returnValue'', JBool success)]
      in if \<not> success then jput ''errorText'' (JString errorText) result else result)"

text \<open>\<open>cbSetPreferences\<close>: what it hands to the outside and the database afterwards.\<close>

definition cbSetPreferences ::
  "prefs_env \<Rightarrow> PrefsFactory \<Rightarrow> PrefsDb \<Rightarrow> message \<Rightarrow> prefs_event list \<times> PrefsDb" where
  "cbSetPreferences E F db msg =
     (case msg_payload msg of
        None \<Rightarrow> ([PrefsReply (prefsResult False ''Payload get failed, null payload'')], db)
      | Some payload \<Rightarrow>
          (case pe_fromString E payload of
             JObject children \<Rightarrow>
               (let callerId = (case msg_applicationId msg of Some a \<Rightarrow> a | None \<Rightarrow> []);
                    st = foldl (setPreference E F callerId)
                           \<lparr>pl_db = db, pl_success = True, pl_savecount = 0,
                            pl_errcount = 0, pl_events = []\<rparr> children;
                    (success, errorText) =
                      (if pl_errcount st \<noteq> 0
                       then (False, ''Some settings could not be saved'')
                       else (pl_success st, []))
                in (pl_events st @ [PrefsReply (prefsResult success errorText)], pl_db st))
           | _ \<Rightarrow>
               ([PrefsReply (prefsResult False ''invalid payload (should be an object)'')], db)))"

section \<open>A reference C library: the proleptic Gregorian calendar and a zone with one rule\<close>

text \<open>
  The behaviour of \<open>gmtime_r\<close>, \<open>timegm\<close>, \<open>localtime_r\<close> and \<open>timelocal\<close> that POSIX
  describes, for instantiating the parameter \<open>libc\<close>.  Days are counted from
  1970-01-01; years are split into 400-, 100-, 4- and 1-year cycles that start on
  March 1st.
\<close>

definition civil_from_days :: "int \<Rightarrow> int \<times> int \<times> int" where
  "civil_from_days z =
     (let z0 = z + 719468;
          era = z0 div 146097;
          doe = z0 mod 146097;
          n100 = min 3 (doe div 36524);
          r100 = doe - n100 * 36524;
          n4 = r100 div 1461;
          r4 = r100 mod 1461;
          n1 = min 3 (r4 div 365);
          doy = r4 - 365 * n1;
          yoe = 100 * n100 + 4 * n4 + n1;
          mp = (5 * doy + 2) div 153;
          d = doy - (153 * mp + 2) div 5 + 1;
          m = (if mp < 10 then mp + 3 else mp - 9)
      in (yoe + era * 400 + (if m \<le> 2 then 1 else 0), m, d))"

definition days_from_civil :: "int \<Rightarrow> int \<Rightarrow> int \<Rightarrow> int" where
  "days_from_civil y m d =
     (let y0 = y - (if m \<le> 2 then 1 else 0);
          era = y0 div 400;
          yoe = y0 mod 400;
          mp = (if m > 2 then m - 3 else m + 9);
          doy = (153 * mp + 2) div 5 + d - 1;
          doe = yoe * 365 + yoe div 4 - yoe div 100 + doy
      in era * 146097 + doe - 719468)"

text \<open>Seconds since the epoch to broken-down time and back; months out of range carry
  into the year, as \<open>timegm\<close> and \<open>mktime\<close> normalise them.\<close>

definition tm_of_secs :: "int \<Rightarrow> int \<Rightarrow> tm" where
  "tm_of_secs x isdst =
     (let days = x div 86400;
          (y, m, d) = civil_from_days days
      in \<lparr>tm_sec = x mod 60,
          tm_min = (x div 60) mod 60,
          tm_hour = (x div 3600) mod 24,
          tm_mday = d,
          tm_mon = m - 1,
          tm_year = y - 1900,
          tm_wday = (days + 4) mod 7,
          tm_yday = days - days_from_civil y 1 1,
          tm_isdst = isdst\<rparr>)"

definition secs_of_tm :: "tm \<Rightarrow> int" where
  "secs_of_tm t =
     days_from_civil (tm_year t + 1900 + tm_mon t div 12) (tm_mon t mod 12 + 1) (tm_mday t)
       * 86400
     + tm_hour t * 3600 + tm_min t * 60 + tm_sec t"

text \<open>\<open>tm_year\<close> is a C \<open>int\<close>: a time whose year does not fit has no broken-down form.\<close>

definition year_fits :: "int \<Rightarrow> bool" where
  "year_fits x =
     (let y = fst (civil_from_days (x div 86400)) - 1900
      in - (2 ^ 31) \<le> y \<and> y < 2 ^ 31)"

definition to_time_t :: "int \<Rightarrow> time_t" where
  "to_time_t x = (if - (2 ^ 63) \<le> x \<and> x < 2 ^ 63 then word_of_int x else - 1)"

text \<open>
  A zone: the offsets from UTC of standard and of daylight-saving time, in seconds, and
  the instants (in UTC) at which daylight-saving time is in force.
\<close>

record zone =
  z_std_off :: int
  z_dst_off :: int
  z_dst_active :: "int \<Rightarrow> bool"

definition utc_offset :: "zone \<Rightarrow> int \<Rightarrow> int" where
  "utc_offset Z u = (if z_dst_active Z u then z_dst_off Z else z_std_off Z)"

definition ref_gmtime_r :: "time_t \<Rightarrow> tm option" where
  "ref_gmtime_r t = (if year_fits (sint t) then Some (tm_of_secs (sint t) 0) else None)"

definition ref_timegm :: "tm \<Rightarrow> time_t" where
  "ref_timegm t = to_time_t (secs_of_tm t)"

definition ref_localtime_r :: "zone \<Rightarrow> time_t \<Rightarrow> tm option" where
  "ref_localtime_r Z t =
     (let u = sint t; x = u + utc_offset Z u
      in if year_fits x then Some (tm_of_secs x (if z_dst_active Z u then 1 else 0))
         else None)"

text \<open>
  \<open>timelocal\<close> (\<open>mktime\<close>): with a negative \<open>tm_isdst\<close> the zone's rules decide; a
  wall-clock reading that two instants share is read as the one in daylight-saving time.
\<close>

definition ref_timelocal :: "zone \<Rightarrow> tm \<Rightarrow> time_t" where
  "ref_timelocal Z t =
     (let x = secs_of_tm t
      in if tm_isdst t > 0 then to_time_t (x - z_dst_off Z)
         else if tm_isdst t = 0 then to_time_t (x - z_std_off Z)
         else if z_dst_active Z (x - z_dst_off Z) then to_time_t (x - z_dst_off Z)
         else to_time_t (x - z_std_off Z))"

definition ref_libc :: "zone \<Rightarrow> libc" where
  "ref_libc Z =
     \<lparr>localtime_r = ref_localtime_r Z,
      gmtime_r = ref_gmtime_r,
      timegm = ref_timegm,
      timelocal = ref_timelocal Z\<rparr>"

text \<open>Zones without daylight-saving time, and Central European Time with the
  daylight-saving period of 2021 (March 28th 01:00 UTC to October 31st 01:00 UTC).\<close>

definition fixed_zone :: "int \<Rightarrow> zone" where
  "fixed_zone off = \<lparr>z_std_off = off, z_dst_off = off, z_dst_active = (\<lambda>u. False)\<rparr>"

definition cet_2021 :: zone where
  "cet_2021 =
     \<lparr>z_std_off = 3600, z_dst_off = 7200,
      z_dst_active = (\<lambda>u. 1616893200 \<le> u \<and> u < 1635642000)\<rparr>"


section \<open>Concrete surroundings for evaluating the model\<close>

text \<open>
  A \<open>toJValue(tm)\<close> after \<open>SCHEMA_LOCALTIME\<close>, a \<open>SCHEMA_TIMESTAMP\<close> that asks for the two
  numbers the handler reads and a timestamp that has them, a delay of one second, a
  tracker that refuses the stamp \<open>-1\<close> and never ages a sample.
\<close>

definition example_tmToJValue :: "tm \<Rightarrow> jvalue" where
  "example_tmToJValue t =
     JObject [(''year'', JNumber (tm_year t + 1900)),
              (''month'', JNumber (tm_mon t + 1)),
              (''day'', JNumber (tm_mday t)),
              (''hour'', JNumber (tm_hour t)),
              (''minute'', JNumber (tm_min t)),
              (''second'', JNumber (tm_sec t))]"

definition example_SCHEMA_TIMESTAMP :: "jvalue \<Rightarrow> bool" where
  "example_SCHEMA_TIMESTAMP v =
     (isObject v \<and> isNumber (jget v ''sec'') \<and> isNumber (jget v ''nsec''))"

definition example_sys :: "zone \<Rightarrow> time_t \<Rightarrow> time_t \<Rightarrow> sys" where
  "example_sys Z now stamp =
     \<lparr>sys_libc = ref_libc Z,
      sys_time = (\<lambda>n. now),
      sys_currentStamp = stamp,
      sys_evaluateDelay = (\<lambda>sec nsec. 1),
      sys_timestampJson = JObject [(''sec'', JNumber 100), (''nsec'', JNumber 0)],
      sys_tmToJValue = example_tmToJValue,
      sys_SCHEMA_TIMESTAMP = example_SCHEMA_TIMESTAMP,
      sys_bt_accepts = (\<lambda>utc local stamp. stamp \<noteq> - 1),
      sys_bt_stale = (\<lambda>stamp. False)\<rparr>"

definition example_handler :: "c_int \<Rightarrow> BroadcastTime \<Rightarrow> TimePrefsHandler" where
  "example_handler setting bt =
     \<lparr>m_nitzSetting = setting, m_nitzTimeZoneAvailable = True,
      m_broadcastTime = bt, m_systemTimeSourceTag = ''ntp''\<rparr>"

text \<open>The request of the spec's scenario with \<open>T = 1600000000\<close>, and one without the
  required \<open>local\<close>.\<close>

definition example_request :: jvalue where
  "example_request =
     JObject [(''utc'', JNumber 1600000000), (''local'', JNumber 1600003600),
              (''timestamp'', JObject [(''sec'', JNumber 5000), (''nsec'', JNumber 0)])]"

definition example_request_plain :: jvalue where
  "example_request_plain =
     JObject [(''utc'', JNumber 1600000000), (''local'', JNumber 1600003600)]"

definition example_request_malformed :: jvalue where
  "example_request_malformed =
     JObject [(''utc'', JNumber 1600000000), (''zone'', JString ''UTC'')]"

text \<open>A preferences setup: handler 1 owns \<open>timeFormat\<close> and accepts the two clock
  formats; the one payload the parser knows sets a valid and an invalid preference.\<close>

definition example_prefs_env :: prefs_env where
  "example_prefs_env =
     \<lparr>pe_fromString = (\<lambda>s. if s = ''payload''
          then JObject [(''timeFormat'', JString ''HH24''), (''hourFormat'', JString ''HH99'')]
          else JInvalid),
      pe_stringify = (\<lambda>v. case v of JString x \<Rightarrow> x | _ \<Rightarrow> ''json''),
      pe_validate = (\<lambda>h key v callerId. v = JString ''HH12'' \<or> v = JString ''HH24''),
      pe_writable = (\<lambda>key val. True)\<rparr>"

definition example_factory :: PrefsFactory where
  "example_factory =
     \<lparr>m_handlersMaps = [''timeFormat'' \<mapsto> 1, ''hourFormat'' \<mapsto> 1]\<rparr>"

definition example_message :: message where
  "example_message = \<lparr>msg_payload = Some ''payload'', msg_applicationId = None\<rparr>"


text \<open>The daemon under a zone two hours east of UTC at 1600000100, in automatic mode
  with the sample of the scenario stored.\<close>

definition example_sys_utc2 :: sys where
  "example_sys_utc2 = example_sys (fixed_zone 7200) 1600000100 100"

definition example_handler_sampled :: TimePrefsHandler where
  "example_handler_sampled =
     example_handler 3 (Some \<lparr>bs_utc = 1600000001, bs_local = 1600003601, bs_stamp = 100\<rparr>)"


text \<open>Classifying what a handler hands to the outside.\<close>

fun isNotification :: "event \<Rightarrow> bool" where
  "isNotification (SubscriptionReply key payload) = True"
| "isNotification (DeprecatedClockChange offset tag stamp) = True"
| "isNotification e = False"

fun isSubscriptionReply :: "event \<Rightarrow> bool" where
  "isSubscriptionReply (SubscriptionReply key payload) = True"
| "isSubscriptionReply e = False"

section \<open>Properties of the NITZ setting bitfield\<close>

lemma and_1_xor_2: "((s::c_int) XOR 2) AND 1 = s AND 1"
  by (rule bit_word_eqI) (auto simp: bit_simps)

lemma and_1_or_2: "((s::c_int) OR 2) AND 1 = s AND 1"
  by (rule bit_word_eqI) (auto simp: bit_simps)

lemma and_1_andnot_2: "((s::c_int) AND NOT 2) AND 1 = s AND 1"
  by (rule bit_word_eqI) (auto simp: bit_simps)

lemma and_1_and_minus_3: "((s::c_int) AND - 3) AND 1 = s AND 1"
  using and_1_andnot_2 [of s] by simp

lemma and_1_bit_0: "((s::c_int) AND 1 \<noteq> 0) = bit s 0"
  by (simp add: and_one_eq bit_0 mod_2_eq_odd)

lemma and_2_bit_1: "((s::c_int) AND 2 \<noteq> 0) = bit s 1"
proof -
  have "s AND 2 = 0 \<longleftrightarrow> \<not> bit s 1"
  proof
    assume "s AND 2 = 0"
    then have "\<not> bit (s AND 2) 1" by simp
    then show "\<not> bit s 1" by (simp add: bit_simps)
  next
    assume "\<not> bit s 1"
    then show "s AND 2 = 0"
      by (intro bit_word_eqI) (auto simp: bit_simps)
  qed
  then show ?thesis by blast
qed

text \<open>
  Claim C6.  For every value of the NitzSetting bitfield: manual mode
  (\<open>isManualTimeUsed\<close>) is the negation of \<open>isNITZTimeEnabled\<close>, that is, it holds exactly
  when the time-sync-enabled bit (bit 0) is clear; toggling, setting or clearing the
  zone-sync-enabled bit (bit 1) leaves \<open>isManualTimeUsed\<close> as it was; \<open>isNITZDisabled\<close>
  holds exactly when both bits are clear; and with the setting 2 the daemon is in manual
  time mode while zone synchronisation is enabled.
\<close>

theorem nitz_setting_flags_independent:
  "isManualTimeUsed h = (\<not> isNITZTimeEnabled h)
   \<and> isManualTimeUsed h = (\<not> bit (m_nitzSetting h) 0)
   \<and> isManualTimeUsed (h\<lparr>m_nitzSetting := m_nitzSetting h XOR NITZ_TZEnable\<rparr>)
       = isManualTimeUsed h
   \<and> isManualTimeUsed (h\<lparr>m_nitzSetting := m_nitzSetting h OR NITZ_TZEnable\<rparr>)
       = isManualTimeUsed h
   \<and> isManualTimeUsed (h\<lparr>m_nitzSetting := m_nitzSetting h AND NOT NITZ_TZEnable\<rparr>)
       = isManualTimeUsed h
   \<and> isNITZDisabled h = (\<not> bit (m_nitzSetting h) 0 \<and> \<not> bit (m_nitzSetting h) 1)
   \<and> isManualTimeUsed (example_handler 2 None)
   \<and> isNITZTZEnabled (example_handler 2 None)"
  unfolding isManualTimeUsed_def isNITZTimeEnabled_def isNITZDisabled_def
    isNITZTZEnabled_def NITZ_TimeEnable_def NITZ_TZEnable_def example_handler_def
  by (simp add: and_1_xor_2 and_1_or_2 and_1_and_minus_3 and_1_bit_0 and_2_bit_1)

section \<open>Answers are objects\<close>

lemma reply_schemaGeneric: "reply S response schemaGeneric = [Reply schemaGeneric response]"
  by (simp add: reply_def schema_admits_def)

lemma isObject_jput: "isObject a \<Longrightarrow> isObject (jput k v a)"
  by (cases a) simp_all

lemma jget_jput: "isObject a \<Longrightarrow> jget (jput k v a) k' = (if k' = k then v else jget a k')"
  by (cases a) (simp_all add: update_conv')

lemma isObject_addLocalTime: "isObject a \<Longrightarrow> isObject (addLocalTime S a l)"
  by (simp add: addLocalTime_def isObject_jput split: option.splits)

lemma jget_addLocalTime:
  "isObject a \<Longrightarrow> k \<noteq> ''localtime'' \<Longrightarrow> jget (addLocalTime S a l) k = jget a k"
  by (simp add: addLocalTime_def jget_jput split: option.splits)

section \<open>The effective broadcast time\<close>

lemma BroadcastTime_get_avail:
  "BroadcastTime_get S bt = Some p \<Longrightarrow> BroadcastTime_avail S bt"
  by (auto simp: BroadcastTime_get_def BroadcastTime_avail_def split: option.splits if_splits)

lemma BroadcastTime_get_other_utc:
  "BroadcastTime_get S bt = Some (utc, local) \<Longrightarrow>
   BroadcastTime_get S (map_option (\<lambda>s. s\<lparr>bs_utc := utc'\<rparr>) bt) = Some (utc', local)"
  by (auto simp: BroadcastTime_get_def split: option.splits if_splits)

lemma answer_broadcast_branch:
  assumes "\<not> isManualTimeUsed h"
    and "BroadcastTime_get S (m_broadcastTime h) = Some (utc, local)"
  shows "answerEffectiveBroadcastTime S now answer h (m_broadcastTime h) =
     (if local = - 1
      then (False,
            jput ''errorText'' (JString ''Failed to get localtime'')
              (jput ''errorCode'' (JNumber (- 1)) answer))
      else (True,
            addLocalTime S
              (jput ''timestamp'' (sys_timestampJson S)
                (jput ''local'' (toJValue local)
                  (jput ''adjustedUtc'' (toJValue (toUtc (sys_libc S) local)) answer)))
              local))"
  using assms BroadcastTime_get_avail [OF assms(2)]
  by (simp add: answerEffectiveBroadcastTime_def isSystemTimeBroadcastEffective_def Let_def)

lemma answer_system_branch:
  assumes "isManualTimeUsed h \<or> \<not> BroadcastTime_avail S (m_broadcastTime h)"
  shows "answerEffectiveBroadcastTime S now answer h (m_broadcastTime h) =
     (if toLocal (sys_libc S) now = - 1
      then (False,
            jput ''errorText'' (JString ''Failed to get localtime'')
              (jput ''errorCode'' (JNumber (- 1)) answer))
      else (True,
            jput ''systemTimeSource'' (JString (m_systemTimeSourceTag h))
              (addLocalTime S
                (jput ''timestamp'' (sys_timestampJson S)
                  (jput ''local'' (toJValue (toLocal (sys_libc S) now))
                    (jput ''adjustedUtc'' (toJValue now) answer)))
                (toLocal (sys_libc S) now))))"
  using assms
  by (simp add: answerEffectiveBroadcastTime_def isSystemTimeBroadcastEffective_def Let_def
      getSystemTimeSource_def)

text \<open>
  Claim C1, as stated, fails: a stored sample whose local value is \<open>(time_t)-1\<close> is
  available in automatic mode, and the computation returns the failure
  "Failed to get localtime" with no \<open>adjustedUtc\<close> at all.  The sample below is the one
  \<open>setBroadcastTime\<close> stores for the request \<open>{utc: 1600000000, local: -1}\<close>.
\<close>

theorem effective_time_invalid_local_counterexample:
  "\<not> isManualTimeUsed
       (snd (cbSetBroadcastTime example_sys_utc2 (example_handler 3 None)
          (JObject [(''utc'', JNumber 1600000000), (''local'', JNumber (- 1))])))
   \<and> BroadcastTime_get example_sys_utc2
        (m_broadcastTime
          (snd (cbSetBroadcastTime example_sys_utc2 (example_handler 3 None)
             (JObject [(''utc'', JNumber 1600000000), (''local'', JNumber (- 1))]))))
       = Some (1600000000, - 1)
   \<and> answerEffectiveBroadcastTime example_sys_utc2 1600000100 (JObject [])
        (snd (cbSetBroadcastTime example_sys_utc2 (example_handler 3 None)
           (JObject [(''utc'', JNumber 1600000000), (''local'', JNumber (- 1))])))
        (m_broadcastTime
          (snd (cbSetBroadcastTime example_sys_utc2 (example_handler 3 None)
             (JObject [(''utc'', JNumber 1600000000), (''local'', JNumber (- 1))]))))
       = (False, JObject [(''errorCode'', JNumber (- 1)),
                          (''errorText'', JString ''Failed to get localtime'')])"
  by code_simp

text \<open>
  Claim C1, amended.  In every state in which the daemon is not in manual mode and a
  broadcast sample \<open>(utc, local)\<close> is available: when \<open>local\<close> is not \<open>(time_t)-1\<close>, the
  computation succeeds with \<open>adjustedUtc = toUtc(local)\<close> under the configured zone and
  with \<open>local\<close> the sample's local value, and it attaches no system time source; the
  sample's own \<open>utc\<close> does not enter the answer (any other stored \<open>utc\<close> gives the same
  answer).  When \<open>local\<close> is \<open>(time_t)-1\<close> the
  computation fails with error code \<open>-1\<close>.
\<close>

theorem effective_time_from_broadcast_local:
  assumes "\<not> isManualTimeUsed h"
    and "BroadcastTime_get S (m_broadcastTime h) = Some (utc, local)"
    and "isObject answer"
  shows "(local \<noteq> - 1 \<longrightarrow>
            fst (answerEffectiveBroadcastTime S now answer h (m_broadcastTime h))
          \<and> jget (snd (answerEffectiveBroadcastTime S now answer h (m_broadcastTime h)))
               ''adjustedUtc'' = toJValue (toUtc (sys_libc S) local)
          \<and> jget (snd (answerEffectiveBroadcastTime S now answer h (m_broadcastTime h)))
               ''local'' = toJValue local
          \<and> jget (snd (answerEffectiveBroadcastTime S now answer h (m_broadcastTime h)))
               ''systemTimeSource'' = jget answer ''systemTimeSource'')
       \<and> (local = - 1 \<longrightarrow>
            answerEffectiveBroadcastTime S now answer h (m_broadcastTime h) =
              (False,
               jput ''errorText'' (JString ''Failed to get localtime'')
                 (jput ''errorCode'' (JNumber (- 1)) answer)))
       \<and> (\<forall>utc'.
            answerEffectiveBroadcastTime S now answer
              (h\<lparr>m_broadcastTime := map_option (\<lambda>s. s\<lparr>bs_utc := utc'\<rparr>) (m_broadcastTime h)\<rparr>)
              (map_option (\<lambda>s. s\<lparr>bs_utc := utc'\<rparr>) (m_broadcastTime h))
            = answerEffectiveBroadcastTime S now answer h (m_broadcastTime h))"
proof -
  have indep: "answerEffectiveBroadcastTime S now answer
              (h\<lparr>m_broadcastTime := map_option (\<lambda>s. s\<lparr>bs_utc := utc'\<rparr>) (m_broadcastTime h)\<rparr>)
              (map_option (\<lambda>s. s\<lparr>bs_utc := utc'\<rparr>) (m_broadcastTime h))
            = answerEffectiveBroadcastTime S now answer h (m_broadcastTime h)" for utc'
  proof -
    let ?h = "h\<lparr>m_broadcastTime := map_option (\<lambda>s. s\<lparr>bs_utc := utc'\<rparr>) (m_broadcastTime h)\<rparr>"
    have m: "\<not> isManualTimeUsed ?h"
      using assms(1) by (simp add: isManualTimeUsed_def)
    have g: "BroadcastTime_get S (m_broadcastTime ?h) = Some (utc', local)"
      using BroadcastTime_get_other_utc [OF assms(2)] by simp
    show ?thesis
      using answer_broadcast_branch [OF m g, of now answer]
        answer_broadcast_branch [OF assms(1,2), of now answer]
      by simp
  qed
  show ?thesis
    using assms(3) indep
    by (simp add: answer_broadcast_branch [OF assms(1,2)] jget_jput isObject_jput
        jget_addLocalTime)
qed

theorem effective_time_from_broadcast_local_witness:
  "\<not> isManualTimeUsed example_handler_sampled
   \<and> BroadcastTime_get example_sys_utc2 (m_broadcastTime example_handler_sampled)
       = Some (1600000001, 1600003601)
   \<and> isObject (JObject [])
   \<and> fst (answerEffectiveBroadcastTime example_sys_utc2 1600000100 (JObject [])
            example_handler_sampled (m_broadcastTime example_handler_sampled))
   \<and> jget (snd (answerEffectiveBroadcastTime example_sys_utc2 1600000100 (JObject [])
                  example_handler_sampled (m_broadcastTime example_handler_sampled)))
        ''adjustedUtc'' = JNumber 1599996401"
proof -
  have h1: "\<not> isManualTimeUsed example_handler_sampled" by code_simp
  have h2: "BroadcastTime_get example_sys_utc2 (m_broadcastTime example_handler_sampled)
       = Some (1600000001, 1600003601)" by code_simp
  have h3: "isObject (JObject [])" by simp
  have l: "(1600003601::time_t) \<noteq> - 1" by simp
  have v: "toJValue (toUtc (sys_libc example_sys_utc2) 1600003601) = JNumber 1599996401"
    by code_simp
  from effective_time_from_broadcast_local [OF h1 h2 h3, of 1600000100] l
  have "fst (answerEffectiveBroadcastTime example_sys_utc2 1600000100 (JObject [])
            example_handler_sampled (m_broadcastTime example_handler_sampled))
   \<and> jget (snd (answerEffectiveBroadcastTime example_sys_utc2 1600000100 (JObject [])
                  example_handler_sampled (m_broadcastTime example_handler_sampled)))
        ''adjustedUtc'' = toJValue (toUtc (sys_libc example_sys_utc2) 1600003601)"
    by blast
  with h1 h2 h3 v show ?thesis by (simp only: simp_thms)
qed

text \<open>
  Claim C2, as stated, fails: in manual mode, with the zone five hours west of UTC and the
  system clock at 17999 (1970-01-01 04:59:59 UTC), the local representation of the clock
  is \<open>-1\<close>, which the computation takes for an invalid time: it returns the failure
  "Failed to get localtime".
\<close>

theorem effective_time_system_clock_counterexample:
  "isManualTimeUsed (example_handler 0 None)
   \<and> toLocal (ref_libc (fixed_zone (- 18000))) 17999 = - 1
   \<and> answerEffectiveBroadcastTime (example_sys (fixed_zone (- 18000)) 17999 100) 17999
        (JObject []) (example_handler 0 None) (m_broadcastTime (example_handler 0 None))
       = (False, JObject [(''errorCode'', JNumber (- 1)),
                          (''errorText'', JString ''Failed to get localtime'')])"
  by code_simp

text \<open>
  Claim C2, amended.  In every state in which the daemon is in manual mode or no
  broadcast sample is available: when \<open>toLocal\<close> of the system time is not
  \<open>(time_t)-1\<close>, the computation succeeds with \<open>adjustedUtc\<close> the system time, \<open>local\<close> its
  local representation under the configured zone, and the system time source tag
  attached.  When \<open>toLocal\<close> of the system time is \<open>(time_t)-1\<close> the computation fails
  with error code \<open>-1\<close>.
\<close>

theorem effective_time_from_system_clock:
  assumes "isManualTimeUsed h \<or> \<not> BroadcastTime_avail S (m_broadcastTime h)"
    and "isObject answer"
  shows "(toLocal (sys_libc S) now \<noteq> - 1 \<longrightarrow>
            fst (answerEffectiveBroadcastTime S now answer h (m_broadcastTime h))
          \<and> jget (snd (answerEffectiveBroadcastTime S now answer h (m_broadcastTime h)))
               ''adjustedUtc'' = toJValue now
          \<and> jget (snd (answerEffectiveBroadcastTime S now answer h (m_broadcastTime h)))
               ''local'' = toJValue (toLocal (sys_libc S) now)
          \<and> jget (snd (answerEffectiveBroadcastTime S now answer h (m_broadcastTime h)))
               ''systemTimeSource'' = JString (getSystemTimeSource h))
       \<and> (toLocal (sys_libc S) now = - 1 \<longrightarrow>
            answerEffectiveBroadcastTime S now answer h (m_broadcastTime h) =
              (False,
               jput ''errorText'' (JString ''Failed to get localtime'')
                 (jput ''errorCode'' (JNumber (- 1)) answer)))"
  using assms(2)
  by (simp add: answer_system_branch [OF assms(1)] jget_jput isObject_jput
      isObject_addLocalTime jget_addLocalTime getSystemTimeSource_def)

theorem effective_time_from_system_clock_witness:
  "(isManualTimeUsed (example_handler 3 None)
      \<or> \<not> BroadcastTime_avail example_sys_utc2 (m_broadcastTime (example_handler 3 None)))
   \<and> isObject (JObject [])
   \<and> toLocal (sys_libc example_sys_utc2) 1600000100 = 1600007300
   \<and> fst (answerEffectiveBroadcastTime example_sys_utc2 1600000100 (JObject [])
            (example_handler 3 None) (m_broadcastTime (example_handler 3 None)))
   \<and> jget (snd (answerEffectiveBroadcastTime example_sys_utc2 1600000100 (JObject [])
                  (example_handler 3 None) (m_broadcastTime (example_handler 3 None))))
        ''adjustedUtc'' = JNumber 1600000100
   \<and> jget (snd (answerEffectiveBroadcastTime example_sys_utc2 1600000100 (JObject [])
                  (example_handler 3 None) (m_broadcastTime (example_handler 3 None))))
        ''local'' = JNumber 1600007300
   \<and> jget (snd (answerEffectiveBroadcastTime example_sys_utc2 1600000100 (JObject [])
                  (example_handler 3 None) (m_broadcastTime (example_handler 3 None))))
        ''systemTimeSource'' = JString ''ntp''"
proof -
  have h1: "isManualTimeUsed (example_handler 3 None)
      \<or> \<not> BroadcastTime_avail example_sys_utc2 (m_broadcastTime (example_handler 3 None))"
    by code_simp
  have h2: "isObject (JObject [])" by simp
  have l: "toLocal (sys_libc example_sys_utc2) 1600000100 = 1600007300" by code_simp
  have l': "toLocal (sys_libc example_sys_utc2) 1600000100 \<noteq> - 1" by (simp add: l)
  have v: "toJValue 1600000100 = JNumber 1600000100"
    "toJValue (toLocal (sys_libc example_sys_utc2) 1600000100) = JNumber 1600007300"
    "JString (getSystemTimeSource (example_handler 3 None)) = JString ''ntp''"
    by code_simp+
  from effective_time_from_system_clock [OF h1 h2, of 1600000100] l'
  have "fst (answerEffectiveBroadcastTime example_sys_utc2 1600000100 (JObject [])
            (example_handler 3 None) (m_broadcastTime (example_handler 3 None)))
   \<and> jget (snd (answerEffectiveBroadcastTime example_sys_utc2 1600000100 (JObject [])
                  (example_handler 3 None) (m_broadcastTime (example_handler 3 None))))
        ''adjustedUtc'' = toJValue 1600000100
   \<and> jget (snd (answerEffectiveBroadcastTime example_sys_utc2 1600000100 (JObject [])
                  (example_handler 3 None) (m_broadcastTime (example_handler 3 None))))
        ''local'' = toJValue (toLocal (sys_libc example_sys_utc2) 1600000100)
   \<and> jget (snd (answerEffectiveBroadcastTime example_sys_utc2 1600000100 (JObject [])
                  (example_handler 3 None) (m_broadcastTime (example_handler 3 None))))
        ''systemTimeSource'' = JString (getSystemTimeSource (example_handler 3 None))"
    by blast
  with h1 h2 l v show ?thesis by (simp only: simp_thms)
qed

section \<open>setBroadcastTime\<close>

lemma isManualTimeUsed_broadcast_update:
  "isManualTimeUsed (h\<lparr>m_broadcastTime := bt\<rparr>) = isManualTimeUsed h"
  by (simp add: isManualTimeUsed_def)

lemma cbSetBroadcastTime_rejected:
  assumes "schemaSetBroadcastTime S payload"
    and "compensatedTimes S payload = (utc, local)"
    and "\<not> sys_bt_accepts S utc local (sys_currentStamp S)"
  shows "cbSetBroadcastTime S h payload =
     ([Reply schemaGeneric
         (createJsonReply False (- 2) ''Failed to update broadcast time offsets'')], h)"
  using assms
  by (simp add: cbSetBroadcastTime_def BroadcastTime_set_def Let_def reply_schemaGeneric)

lemma cbSetBroadcastTime_stored:
  assumes "schemaSetBroadcastTime S payload"
    and "compensatedTimes S payload = (utc, local)"
    and "sys_bt_accepts S utc local (sys_currentStamp S)"
  shows "cbSetBroadcastTime S h payload =
     ((if \<not> isManualTimeUsed h
       then postBroadcastEffectiveTimeChange S (sys_time S 2)
              (h\<lparr>m_broadcastTime :=
                   Some \<lparr>bs_utc = utc, bs_local = local, bs_stamp = sys_currentStamp S\<rparr>\<rparr>)
       else [])
      @ [DeprecatedClockChange (toUtc (sys_libc S) local - sys_time S 1)
           ''broadcast-adjusted'' (sys_time S 0),
         DeprecatedClockChange (utc - sys_time S 0) ''broadcast'' (sys_time S 0),
         Reply schemaGeneric (createJsonReply True 0 [])],
      h\<lparr>m_broadcastTime :=
           Some \<lparr>bs_utc = utc, bs_local = local, bs_stamp = sys_currentStamp S\<rparr>\<rparr>)"
  using assms
  by (simp add: cbSetBroadcastTime_def BroadcastTime_set_def Let_def
      isManualTimeUsed_broadcast_update reply_schemaGeneric)

text \<open>
  Claim C3.  For every accepted \<open>setBroadcastTime\<close> request that carries an origin
  timestamp (an object with numeric \<open>sec\<close> and \<open>nsec\<close>), the measured delay is added to
  both \<open>utc\<close> and \<open>local\<close>; for a request without one the two fields are taken as they
  are; and when the tracker accepts the sample, the sample it holds afterwards is exactly
  these two values with the current stamp.
\<close>

theorem setBroadcastTime_delay_compensation:
  assumes "schemaSetBroadcastTime S payload"
  shows "(hasTimestamp payload \<longrightarrow>
            compensatedTimes S payload =
              (toInteger (jget payload ''utc'')
                 + sys_evaluateDelay S (toInteger (jget (jget payload ''timestamp'') ''sec''))
                     (toInteger (jget (jget payload ''timestamp'') ''nsec'')),
               toInteger (jget payload ''local'')
                 + sys_evaluateDelay S (toInteger (jget (jget payload ''timestamp'') ''sec''))
                     (toInteger (jget (jget payload ''timestamp'') ''nsec''))))
       \<and> (\<not> hasTimestamp payload \<longrightarrow>
            compensatedTimes S payload =
              (toInteger (jget payload ''utc''), toInteger (jget payload ''local'')))
       \<and> (sys_bt_accepts S (fst (compensatedTimes S payload)) (snd (compensatedTimes S payload))
             (sys_currentStamp S) \<longrightarrow>
            m_broadcastTime (snd (cbSetBroadcastTime S h payload)) =
              Some \<lparr>bs_utc = fst (compensatedTimes S payload),
                    bs_local = snd (compensatedTimes S payload),
                    bs_stamp = sys_currentStamp S\<rparr>)"
proof -
  have a: "sys_bt_accepts S (fst (compensatedTimes S payload)) (snd (compensatedTimes S payload))
             (sys_currentStamp S) \<Longrightarrow>
           m_broadcastTime (snd (cbSetBroadcastTime S h payload)) =
              Some \<lparr>bs_utc = fst (compensatedTimes S payload),
                    bs_local = snd (compensatedTimes S payload),
                    bs_stamp = sys_currentStamp S\<rparr>"
    using cbSetBroadcastTime_stored [OF assms, of "fst (compensatedTimes S payload)"
        "snd (compensatedTimes S payload)" h]
    by simp
  show ?thesis
    using a by (simp add: compensatedTimes_def Let_def)
qed

theorem setBroadcastTime_delay_compensation_witness:
  "schemaSetBroadcastTime example_sys_utc2 example_request
   \<and> hasTimestamp example_request
   \<and> \<not> hasTimestamp example_request_plain
   \<and> schemaSetBroadcastTime example_sys_utc2 example_request_plain
   \<and> compensatedTimes example_sys_utc2 example_request = (1600000001, 1600003601)
   \<and> compensatedTimes example_sys_utc2 example_request_plain = (1600000000, 1600003600)
   \<and> m_broadcastTime (snd (cbSetBroadcastTime example_sys_utc2 (example_handler 3 None)
        example_request))
       = Some \<lparr>bs_utc = 1600000001, bs_local = 1600003601, bs_stamp = 100\<rparr>
   \<and> m_broadcastTime (snd (cbSetBroadcastTime example_sys_utc2 (example_handler 3 None)
        example_request_plain))
       = Some \<lparr>bs_utc = 1600000000, bs_local = 1600003600, bs_stamp = 100\<rparr>"
proof -
  have h1: "schemaSetBroadcastTime example_sys_utc2 example_request" by code_simp
  have h2: "schemaSetBroadcastTime example_sys_utc2 example_request_plain" by code_simp
  have t1: "hasTimestamp example_request" by code_simp
  have t2: "\<not> hasTimestamp example_request_plain" by code_simp
  have c1: "compensatedTimes example_sys_utc2 example_request = (1600000001, 1600003601)"
    by code_simp
  have c2: "compensatedTimes example_sys_utc2 example_request_plain = (1600000000, 1600003600)"
    by code_simp
  have a: "sys_bt_accepts example_sys_utc2 u l (sys_currentStamp example_sys_utc2)" for u l
    by (simp add: example_sys_utc2_def example_sys_def)
  have s: "sys_currentStamp example_sys_utc2 = 100"
    by (simp add: example_sys_utc2_def example_sys_def)
  from setBroadcastTime_delay_compensation [OF h1, of "example_handler 3 None"] a
  have r1: "m_broadcastTime (snd (cbSetBroadcastTime example_sys_utc2 (example_handler 3 None)
        example_request))
       = Some \<lparr>bs_utc = 1600000001, bs_local = 1600003601, bs_stamp = 100\<rparr>"
    by (simp add: c1 s)
  from setBroadcastTime_delay_compensation [OF h2, of "example_handler 3 None"] a
  have r2: "m_broadcastTime (snd (cbSetBroadcastTime example_sys_utc2 (example_handler 3 None)
        example_request_plain))
       = Some \<lparr>bs_utc = 1600000000, bs_local = 1600003600, bs_stamp = 100\<rparr>"
    by (simp add: c2 s)
  from h1 h2 t1 t2 c1 c2 r1 r2 show ?thesis by (simp only: simp_thms)
qed

text \<open>
  Claim C4.  For every accepted \<open>setBroadcastTime\<close> request whose storage step fails, the
  handler hands out exactly one thing, the failure reply (\<open>returnValue\<close> false, error
  code \<open>-2\<close>, an error text): no subscription push and no clock-change signal; and the
  handler's state is unchanged.
\<close>

theorem setBroadcastTime_store_failure:
  assumes "schemaSetBroadcastTime S payload"
    and "\<not> sys_bt_accepts S (fst (compensatedTimes S payload))
             (snd (compensatedTimes S payload)) (sys_currentStamp S)"
  shows "cbSetBroadcastTime S h payload =
           ([Reply schemaGeneric
               (createJsonReply False (- 2) ''Failed to update broadcast time offsets'')], h)
       \<and> jget (createJsonReply False (- 2) ''Failed to update broadcast time offsets'')
            ''returnValue'' = JBool False
       \<and> \<not> list_ex isNotification (fst (cbSetBroadcastTime S h payload))"
  using cbSetBroadcastTime_rejected [OF assms(1) _ assms(2), of h]
  by (simp add: createJsonReply_def)

theorem setBroadcastTime_store_failure_witness:
  "schemaSetBroadcastTime (example_sys (fixed_zone 7200) 1600000100 (- 1)) example_request
   \<and> \<not> sys_bt_accepts (example_sys (fixed_zone 7200) 1600000100 (- 1))
         (fst (compensatedTimes (example_sys (fixed_zone 7200) 1600000100 (- 1)) example_request))
         (snd (compensatedTimes (example_sys (fixed_zone 7200) 1600000100 (- 1)) example_request))
         (sys_currentStamp (example_sys (fixed_zone 7200) 1600000100 (- 1)))
   \<and> cbSetBroadcastTime (example_sys (fixed_zone 7200) 1600000100 (- 1))
        example_handler_sampled example_request =
       ([Reply schemaGeneric
           (createJsonReply False (- 2) ''Failed to update broadcast time offsets'')],
        example_handler_sampled)"
proof -
  have h1: "schemaSetBroadcastTime (example_sys (fixed_zone 7200) 1600000100 (- 1)) example_request"
    by code_simp
  have h2: "\<not> sys_bt_accepts (example_sys (fixed_zone 7200) 1600000100 (- 1))
         (fst (compensatedTimes (example_sys (fixed_zone 7200) 1600000100 (- 1)) example_request))
         (snd (compensatedTimes (example_sys (fixed_zone 7200) 1600000100 (- 1)) example_request))
         (sys_currentStamp (example_sys (fixed_zone 7200) 1600000100 (- 1)))"
    by (simp add: example_sys_def)
  from setBroadcastTime_store_failure [OF h1 h2, of example_handler_sampled] h1 h2
  show ?thesis by blast
qed

lemma postBroadcastEffectiveTimeChange_cases:
  "postBroadcastEffectiveTimeChange S now h =
     (if fst (answerEffectiveBroadcastTime S now (JObject []) h (m_broadcastTime h))
      then [SubscriptionReply effectiveBroadcastKey
              (snd (answerEffectiveBroadcastTime S now (JObject []) h (m_broadcastTime h)))]
      else [])"
  by (simp add: postBroadcastEffectiveTimeChange_def split: prod.splits)

text \<open>
  Claim C5, as stated, fails: in manual mode (NITZ setting 2) the request of the scenario
  is stored, the two clock-change signals fire and the caller gets its success reply,
  but nothing is posted to the subscribers of \<open>getEffectiveBroadcastTime\<close>.
\<close>

theorem setBroadcastTime_push_counterexample:
  "schemaSetBroadcastTime example_sys_utc2 example_request
   \<and> isManualTimeUsed (example_handler 2 None)
   \<and> cbSetBroadcastTime example_sys_utc2 (example_handler 2 None) example_request
       = ([DeprecatedClockChange (- 3699) ''broadcast-adjusted'' 1600000100,
           DeprecatedClockChange (- 99) ''broadcast'' 1600000100,
           Reply schemaGeneric (JObject [(''returnValue'', JBool True)])],
          example_handler 2
            (Some \<lparr>bs_utc = 1600000001, bs_local = 1600003601, bs_stamp = 100\<rparr>))"
  by code_simp

text \<open>
  Claim C5, amended.  After every \<open>setBroadcastTime\<close> request that successfully stores
  a sample while the daemon is not in manual mode, the effective broadcast time is
  recomputed over the new state and, when that computation succeeds, the first thing the
  handler hands out is the post of the recomputed answer under the subscription key of
  \<open>getEffectiveBroadcastTime\<close>, and it is the only post.  In manual mode the request
  posts nothing to the subscribers.
\<close>

theorem setBroadcastTime_push:
  assumes "schemaSetBroadcastTime S payload"
    and "sys_bt_accepts S (fst (compensatedTimes S payload))
             (snd (compensatedTimes S payload)) (sys_currentStamp S)"
  shows "(\<not> isManualTimeUsed h
          \<and> fst (answerEffectiveBroadcastTime S (sys_time S 2) (JObject [])
                  (snd (cbSetBroadcastTime S h payload))
                  (m_broadcastTime (snd (cbSetBroadcastTime S h payload)))) \<longrightarrow>
            (\<exists>rest. fst (cbSetBroadcastTime S h payload) =
              SubscriptionReply effectiveBroadcastKey
                (snd (answerEffectiveBroadcastTime S (sys_time S 2) (JObject [])
                  (snd (cbSetBroadcastTime S h payload))
                  (m_broadcastTime (snd (cbSetBroadcastTime S h payload))))) # rest
              \<and> \<not> list_ex isSubscriptionReply rest))
       \<and> (isManualTimeUsed h \<longrightarrow>
            \<not> list_ex isSubscriptionReply (fst (cbSetBroadcastTime S h payload)))"
  using cbSetBroadcastTime_stored [OF assms(1) _ assms(2), of h]
  by (simp add: postBroadcastEffectiveTimeChange_cases)

theorem setBroadcastTime_push_witness:
  "schemaSetBroadcastTime example_sys_utc2 example_request
   \<and> sys_bt_accepts example_sys_utc2 (fst (compensatedTimes example_sys_utc2 example_request))
        (snd (compensatedTimes example_sys_utc2 example_request))
        (sys_currentStamp example_sys_utc2)
   \<and> \<not> isManualTimeUsed (example_handler 3 None)
   \<and> snd (cbSetBroadcastTime example_sys_utc2 (example_handler 3 None) example_request)
       = example_handler_sampled
   \<and> (\<exists>rest. fst (cbSetBroadcastTime example_sys_utc2 (example_handler 3 None) example_request)
         = SubscriptionReply effectiveBroadcastKey
             (snd (answerEffectiveBroadcastTime example_sys_utc2 1600000100 (JObject [])
                     example_handler_sampled (m_broadcastTime example_handler_sampled))) # rest
         \<and> \<not> list_ex isSubscriptionReply rest)
   \<and> jget (snd (answerEffectiveBroadcastTime example_sys_utc2 1600000100 (JObject [])
                  example_handler_sampled (m_broadcastTime example_handler_sampled)))
        ''adjustedUtc'' = JNumber 1599996401"
proof -
  have h1: "schemaSetBroadcastTime example_sys_utc2 example_request" by code_simp
  have h2: "sys_bt_accepts example_sys_utc2 (fst (compensatedTimes example_sys_utc2 example_request))
        (snd (compensatedTimes example_sys_utc2 example_request))
        (sys_currentStamp example_sys_utc2)"
    by (simp add: example_sys_utc2_def example_sys_def)
  have m: "\<not> isManualTimeUsed (example_handler 3 None)" by code_simp
  have st: "snd (cbSetBroadcastTime example_sys_utc2 (example_handler 3 None) example_request)
       = example_handler_sampled" by code_simp
  have t: "sys_time example_sys_utc2 2 = 1600000100"
    by (simp add: example_sys_utc2_def example_sys_def)
  have ok: "fst (answerEffectiveBroadcastTime example_sys_utc2 1600000100 (JObject [])
                     example_handler_sampled (m_broadcastTime example_handler_sampled))"
    by code_simp
  have v: "jget (snd (answerEffectiveBroadcastTime example_sys_utc2 1600000100 (JObject [])
                  example_handler_sampled (m_broadcastTime example_handler_sampled)))
        ''adjustedUtc'' = JNumber 1599996401"
    by code_simp
  from setBroadcastTime_push [OF h1 h2, of "example_handler 3 None"] m ok
  have "\<exists>rest. fst (cbSetBroadcastTime example_sys_utc2 (example_handler 3 None) example_request)
         = SubscriptionReply effectiveBroadcastKey
             (snd (answerEffectiveBroadcastTime example_sys_utc2 1600000100 (JObject [])
                     example_handler_sampled (m_broadcastTime example_handler_sampled))) # rest
         \<and> \<not> list_ex isSubscriptionReply rest"
    by (simp add: st t)
  with h1 h2 m st v show ?thesis by (simp only: simp_thms)
qed

lemma schemaSetBroadcastTime_object:
  "schemaSetBroadcastTime S payload \<Longrightarrow> isObject payload"
  by (cases payload) (simp_all add: schemaSetBroadcastTime_def)

lemma schemaSetBroadcastTime_member:
  assumes "schemaSetBroadcastTime S (JObject kvs)" and "(k, v) \<in> set kvs"
  shows "(k = ''utc'' \<and> isNumber v) \<or> (k = ''local'' \<and> isNumber v)
         \<or> (k = ''timestamp'' \<and> sys_SCHEMA_TIMESTAMP S v)"
proof -
  from assms(1) have "list_all (\<lambda>(k, v).
              if k = ''utc'' then isNumber v
              else if k = ''local'' then isNumber v
              else if k = ''timestamp'' then sys_SCHEMA_TIMESTAMP S v
              else False) kvs"
    by (simp add: schemaSetBroadcastTime_def)
  with assms(2) have "(\<lambda>(k, v).
              if k = ''utc'' then isNumber v
              else if k = ''local'' then isNumber v
              else if k = ''timestamp'' then sys_SCHEMA_TIMESTAMP S v
              else False) (k, v)"
    unfolding list_all_iff by blast
  then show ?thesis by (simp split: if_splits)
qed

lemma schemaSetBroadcastTime_required:
  assumes "schemaSetBroadcastTime S payload"
  shows "isNumber (jget payload ''utc'') \<and> isNumber (jget payload ''local'')"
proof -
  obtain kvs where p: "payload = JObject kvs"
    using schemaSetBroadcastTime_object [OF assms] by (cases payload) simp_all
  from assms p have k: "''utc'' \<in> fst ` set kvs" "''local'' \<in> fst ` set kvs"
    by (simp_all add: schemaSetBroadcastTime_def)
  have "isNumber (jget payload key)" if "key \<in> fst ` set kvs" "key = ''utc'' \<or> key = ''local''"
    for key
  proof -
    from that(1) obtain v where "map_of kvs key = Some v"
      by (metis domD dom_map_of_conv_image_fst)
    moreover from this have "(key, v) \<in> set kvs" by (rule map_of_SomeD)
    ultimately show ?thesis
      using schemaSetBroadcastTime_member [OF assms [unfolded p]] that(2)
      by (auto simp: p)
  qed
  with k show ?thesis by blast
qed

text \<open>
  Claim C7.  For every \<open>setBroadcastTime\<close> request whose payload fails the schema, the
  caller gets the parser's structured failure and nothing else happens: the handler's
  state, the stored sample with it, is unchanged and no notification is handed out.  The
  schema fails for a payload that is not an object, for one without a numeric \<open>utc\<close> or
  \<open>local\<close>, and for one with a member other than \<open>utc\<close>, \<open>local\<close> and \<open>timestamp\<close>.
\<close>

theorem setBroadcastTime_malformed:
  "(\<not> schemaSetBroadcastTime S payload \<longrightarrow>
      cbSetBroadcastTime S h payload = ([ParserErrorReply ''cbSetBroadcastTime''], h))
   \<and> (\<not> isObject payload \<longrightarrow> \<not> schemaSetBroadcastTime S payload)
   \<and> (\<not> isNumber (jget payload ''utc'') \<longrightarrow> \<not> schemaSetBroadcastTime S payload)
   \<and> (\<not> isNumber (jget payload ''local'') \<longrightarrow> \<not> schemaSetBroadcastTime S payload)
   \<and> (\<forall>kvs k v. payload = JObject kvs \<and> (k, v) \<in> set kvs
         \<and> k \<noteq> ''utc'' \<and> k \<noteq> ''local'' \<and> k \<noteq> ''timestamp''
        \<longrightarrow> \<not> schemaSetBroadcastTime S payload)"
proof -
  have a: "\<not> schemaSetBroadcastTime S payload \<longrightarrow>
      cbSetBroadcastTime S h payload = ([ParserErrorReply ''cbSetBroadcastTime''], h)"
    by (simp add: cbSetBroadcastTime_def)
  have b: "\<forall>kvs k v. payload = JObject kvs \<and> (k, v) \<in> set kvs
         \<and> k \<noteq> ''utc'' \<and> k \<noteq> ''local'' \<and> k \<noteq> ''timestamp''
        \<longrightarrow> \<not> schemaSetBroadcastTime S payload"
    using schemaSetBroadcastTime_member by blast
  show ?thesis
    using a b schemaSetBroadcastTime_object schemaSetBroadcastTime_required by blast
qed

theorem setBroadcastTime_malformed_witness:
  "\<not> schemaSetBroadcastTime example_sys_utc2 example_request_malformed
   \<and> cbSetBroadcastTime example_sys_utc2 example_handler_sampled example_request_malformed
       = ([ParserErrorReply ''cbSetBroadcastTime''], example_handler_sampled)"
proof -
  have h: "\<not> schemaSetBroadcastTime example_sys_utc2 example_request_malformed" by code_simp
  from setBroadcastTime_malformed [of example_sys_utc2 example_request_malformed
      example_handler_sampled] h
  show ?thesis by blast
qed

section \<open>getBroadcastTime\<close>






section \<open>Setting preferences\<close>

lemma setPreference_rejected:
  assumes "getPrefsHandler F key = Some h" and "\<not> pe_validate E h key v callerId"
  shows "setPreference E F callerId st (key, v) = st\<lparr>pl_errcount := pl_errcount st + 1\<rparr>"
  using assms by (simp add: setPreference_def Let_def)

lemma setPreference_saved:
  assumes "getPrefsHandler F key = Some h" and "pe_validate E h key v callerId"
    and "pe_writable E key (pe_stringify E v)"
  shows "setPreference E F callerId st (key, v) =
     st\<lparr>pl_db := (pl_db st)(key \<mapsto> pe_stringify E v),
        pl_savecount := pl_savecount st + 1,
        pl_events := pl_events st
          @ [PostPrefChange key (pe_stringify E (JObject [(key, v)])), ValueChanged h key v],
        pl_success := True\<rparr>"
  using assms by (simp add: setPreference_def PrefsDb_setPref_def Let_def)

lemma setPreference_other_key:
  "fst pref \<noteq> key \<Longrightarrow> pl_db (setPreference E F callerId st pref) key = pl_db st key"
  by (auto simp: setPreference_def PrefsDb_setPref_def Let_def split: option.splits prod.splits if_splits)

lemma setPreference_errcount:
  "pl_errcount st \<le> pl_errcount (setPreference E F callerId st pref)"
  by (auto simp: setPreference_def PrefsDb_setPref_def Let_def split: option.splits prod.splits if_splits)

lemma setPreference_events:
  "set (pl_events st) \<subseteq> set (pl_events (setPreference E F callerId st pref))"
  by (auto simp: setPreference_def PrefsDb_setPref_def Let_def split: option.splits prod.splits if_splits)

lemma foldl_setPreference_errcount:
  "pl_errcount st \<le> pl_errcount (foldl (setPreference E F callerId) st prefs)"
proof (induction prefs arbitrary: st)
  case Nil
  then show ?case by simp
next
  case (Cons p ps)
  have "pl_errcount st \<le> pl_errcount (setPreference E F callerId st p)"
    by (rule setPreference_errcount)
  also have "\<dots> \<le> pl_errcount (foldl (setPreference E F callerId) (setPreference E F callerId st p) ps)"
    by (rule Cons.IH)
  finally show ?case by simp
qed

lemma foldl_setPreference_events:
  "set (pl_events st) \<subseteq> set (pl_events (foldl (setPreference E F callerId) st prefs))"
proof (induction prefs arbitrary: st)
  case Nil
  then show ?case by simp
next
  case (Cons p ps)
  have "set (pl_events st) \<subseteq> set (pl_events (setPreference E F callerId st p))"
    by (rule setPreference_events)
  also have "\<dots> \<subseteq> set (pl_events (foldl (setPreference E F callerId) (setPreference E F callerId st p) ps))"
    by (rule Cons.IH)
  finally show ?case by simp
qed

lemma foldl_setPreference_rejected_counts:
  assumes "(key, v) \<in> set prefs" and "getPrefsHandler F key = Some h"
    and "\<not> pe_validate E h key v callerId"
  shows "0 < pl_errcount (foldl (setPreference E F callerId) st prefs)"
  using assms(1)
proof (induction prefs arbitrary: st)
  case Nil
  then show ?case by simp
next
  case (Cons p ps)
  show ?case
  proof (cases "p = (key, v)")
    case True
    have "0 < pl_errcount (setPreference E F callerId st p)"
      by (simp add: True setPreference_rejected [OF assms(2,3)])
    also have "\<dots> \<le> pl_errcount (foldl (setPreference E F callerId) (setPreference E F callerId st p) ps)"
      by (rule foldl_setPreference_errcount)
    finally show ?thesis by simp
  next
    case False
    with Cons.prems have "(key, v) \<in> set ps" by simp
    then show ?thesis using Cons.IH by simp
  qed
qed

lemma foldl_setPreference_saved_events:
  assumes "(key, v) \<in> set prefs" and "getPrefsHandler F key = Some h"
    and "pe_validate E h key v callerId" and "pe_writable E key (pe_stringify E v)"
  shows "PostPrefChange key (pe_stringify E (JObject [(key, v)]))
           \<in> set (pl_events (foldl (setPreference E F callerId) st prefs))
       \<and> ValueChanged h key v
           \<in> set (pl_events (foldl (setPreference E F callerId) st prefs))"
  using assms(1)
proof (induction prefs arbitrary: st)
  case Nil
  then show ?case by simp
next
  case (Cons p ps)
  show ?case
  proof (cases "p = (key, v)")
    case True
    have "PostPrefChange key (pe_stringify E (JObject [(key, v)]))
            \<in> set (pl_events (setPreference E F callerId st p))
          \<and> ValueChanged h key v \<in> set (pl_events (setPreference E F callerId st p))"
      by (simp add: True setPreference_saved [OF assms(2,3,4)])
    then show ?thesis
      using foldl_setPreference_events [of "setPreference E F callerId st p" E F callerId ps]
      by auto
  next
    case False
    with Cons.prems have "(key, v) \<in> set ps" by simp
    then show ?thesis using Cons.IH by simp
  qed
qed

lemma foldl_setPreference_db_unchanged:
  assumes "getPrefsHandler F key = Some h"
    and "\<forall>v. (key, v) \<in> set prefs \<longrightarrow> \<not> pe_validate E h key v callerId"
  shows "pl_db (foldl (setPreference E F callerId) st prefs) key = pl_db st key"
  using assms(2)
proof (induction prefs arbitrary: st)
  case Nil
  then show ?case by simp
next
  case (Cons p ps)
  have step: "pl_db (setPreference E F callerId st p) key = pl_db st key"
  proof (cases "fst p = key")
    case True
    then have p: "p = (key, snd p)" by (cases p) simp
    with Cons.prems have "\<not> pe_validate E h key (snd p) callerId" by (metis list.set_intros(1))
    then show ?thesis
      using setPreference_rejected [OF assms(1), of E "snd p" callerId st] p by simp
  next
    case False
    then show ?thesis by (rule setPreference_other_key)
  qed
  from Cons.prems have "\<forall>v. (key, v) \<in> set ps \<longrightarrow> \<not> pe_validate E h key v callerId"
    by simp
  then have "pl_db (foldl (setPreference E F callerId) (setPreference E F callerId st p) ps) key
      = pl_db (setPreference E F callerId st p) key"
    by (rule Cons.IH)
  with step show ?case by simp
qed

lemma cbSetPreferences_object:
  assumes "msg_payload msg = Some payload" and "pe_fromString E payload = JObject children"
  shows "cbSetPreferences E F db msg =
     (let st = foldl (setPreference E F (case msg_applicationId msg of Some a \<Rightarrow> a | None \<Rightarrow> []))
                 \<lparr>pl_db = db, pl_success = True, pl_savecount = 0,
                  pl_errcount = 0, pl_events = []\<rparr> children
      in (pl_events st
            @ [PrefsReply (if pl_errcount st \<noteq> 0
                           then prefsResult False ''Some settings could not be saved''
                           else prefsResult (pl_success st) [])],
          pl_db st))"
  using assms by (simp add: cbSetPreferences_def Let_def)

text \<open>
  Claim C8.  For every member \<open>(key, v)\<close> of a \<open>setPreferences\<close> payload (an object,
  its keys distinct) whose key has a registered handler: if the handler's \<open>validate\<close>
  rejects the value, the stored value of the key is unchanged and the overall reply is
  the failure "Some settings could not be saved"; if \<open>validate\<close> accepts it and the
  database writes it, the post of the new value to the key's subscribers and the
  handler's \<open>valueChanged\<close> are both among what the handler hands out; and the stored
  value of the key changes only if \<open>validate\<close> accepted the value.
\<close>

theorem setPreferences_validated_and_notified:
  assumes "msg_payload msg = Some payload"
    and "pe_fromString E payload = JObject children"
    and "distinct (map fst children)"
    and "(key, v) \<in> set children"
    and "getPrefsHandler F key = Some h"
  shows "(\<not> pe_validate E h key v (case msg_applicationId msg of Some a \<Rightarrow> a | None \<Rightarrow> []) \<longrightarrow>
            snd (cbSetPreferences E F db msg) key = db key
          \<and> last (fst (cbSetPreferences E F db msg)) =
              PrefsReply (prefsResult False ''Some settings could not be saved'')
          \<and> jget (prefsResult False ''Some settings could not be saved'') ''returnValue''
              = JBool False)
       \<and> (pe_validate E h key v (case msg_applicationId msg of Some a \<Rightarrow> a | None \<Rightarrow> [])
          \<and> pe_writable E key (pe_stringify E v) \<longrightarrow>
            PostPrefChange key (pe_stringify E (JObject [(key, v)]))
              \<in> set (fst (cbSetPreferences E F db msg))
          \<and> ValueChanged h key v \<in> set (fst (cbSetPreferences E F db msg)))
       \<and> (snd (cbSetPreferences E F db msg) key \<noteq> db key \<longrightarrow>
            pe_validate E h key v (case msg_applicationId msg of Some a \<Rightarrow> a | None \<Rightarrow> []))"
proof -
  define callerId where "callerId = (case msg_applicationId msg of Some a \<Rightarrow> a | None \<Rightarrow> [])"
  define st0 where "st0 = \<lparr>pl_db = db, pl_success = True, pl_savecount = 0,
                  pl_errcount = 0, pl_events = ([]::prefs_event list)\<rparr>"
  define st where "st = foldl (setPreference E F callerId) st0 children"
  have cb: "cbSetPreferences E F db msg =
     (pl_events st
        @ [PrefsReply (if pl_errcount st \<noteq> 0
                       then prefsResult False ''Some settings could not be saved''
                       else prefsResult (pl_success st) [])],
      pl_db st)"
    using cbSetPreferences_object [OF assms(1,2), of F db]
    by (simp add: Let_def st_def st0_def callerId_def)
  have only: "v' = v" if "(key, v') \<in> set children" for v'
    using eq_key_imp_eq_value [OF assms(3) that assms(4)] .
  have rej: "pl_db st key = db key \<and> pl_errcount st \<noteq> 0"
    if r: "\<not> pe_validate E h key v callerId"
  proof -
    from r only have "\<forall>v'. (key, v') \<in> set children \<longrightarrow> \<not> pe_validate E h key v' callerId"
      by blast
    then have "pl_db st key = pl_db st0 key"
      unfolding st_def by (rule foldl_setPreference_db_unchanged [OF assms(5)])
    moreover have "0 < pl_errcount st"
      unfolding st_def by (rule foldl_setPreference_rejected_counts [OF assms(4,5) r])
    ultimately show ?thesis by (simp add: st0_def)
  qed
  have sav: "PostPrefChange key (pe_stringify E (JObject [(key, v)])) \<in> set (pl_events st)
       \<and> ValueChanged h key v \<in> set (pl_events st)"
    if "pe_validate E h key v callerId" "pe_writable E key (pe_stringify E v)"
    unfolding st_def by (rule foldl_setPreference_saved_events [OF assms(4,5) that])
  show ?thesis
    unfolding callerId_def [symmetric]
    using rej sav by (auto simp: cb prefsResult_def)
qed

theorem setPreferences_validated_and_notified_witness:
  "msg_payload example_message = Some ''payload''
   \<and> pe_fromString example_prefs_env ''payload''
       = JObject [(''timeFormat'', JString ''HH24''), (''hourFormat'', JString ''HH99'')]
   \<and> distinct (map fst [(''timeFormat'', JString ''HH24''), (''hourFormat'', JString ''HH99'')])
   \<and> getPrefsHandler example_factory ''timeFormat'' = Some 1
   \<and> getPrefsHandler example_factory ''hourFormat'' = Some 1
   \<and> PostPrefChange ''timeFormat''
        (pe_stringify example_prefs_env (JObject [(''timeFormat'', JString ''HH24'')]))
       \<in> set (fst (cbSetPreferences example_prefs_env example_factory Map.empty example_message))
   \<and> ValueChanged 1 ''timeFormat'' (JString ''HH24'')
       \<in> set (fst (cbSetPreferences example_prefs_env example_factory Map.empty example_message))
   \<and> snd (cbSetPreferences example_prefs_env example_factory Map.empty example_message)
        ''hourFormat'' = None
   \<and> last (fst (cbSetPreferences example_prefs_env example_factory Map.empty example_message))
       = PrefsReply (prefsResult False ''Some settings could not be saved'')"
proof -
  have p: "msg_payload example_message = Some ''payload''" by code_simp
  have o: "pe_fromString example_prefs_env ''payload''
       = JObject [(''timeFormat'', JString ''HH24''), (''hourFormat'', JString ''HH99'')]"
    by code_simp
  have d: "distinct (map fst [(''timeFormat'', JString ''HH24''), (''hourFormat'', JString ''HH99'')])"
    by simp
  have m1: "(''timeFormat'', JString ''HH24'')
      \<in> set [(''timeFormat'', JString ''HH24''), (''hourFormat'', JString ''HH99'')]" by simp
  have m2: "(''hourFormat'', JString ''HH99'')
      \<in> set [(''timeFormat'', JString ''HH24''), (''hourFormat'', JString ''HH99'')]" by simp
  have g1: "getPrefsHandler example_factory ''timeFormat'' = Some 1" by code_simp
  have g2: "getPrefsHandler example_factory ''hourFormat'' = Some 1" by code_simp
  have v1: "pe_validate example_prefs_env 1 ''timeFormat'' (JString ''HH24'')
              (case msg_applicationId example_message of Some a \<Rightarrow> a | None \<Rightarrow> [])
            \<and> pe_writable example_prefs_env ''timeFormat''
                (pe_stringify example_prefs_env (JString ''HH24''))"
    by (simp add: example_prefs_env_def)
  have v2: "\<not> pe_validate example_prefs_env 1 ''hourFormat'' (JString ''HH99'')
              (case msg_applicationId example_message of Some a \<Rightarrow> a | None \<Rightarrow> [])"
    by (simp add: example_prefs_env_def)
  from setPreferences_validated_and_notified [OF p o d m1 g1, of Map.empty] v1
  have a: "PostPrefChange ''timeFormat''
        (pe_stringify example_prefs_env (JObject [(''timeFormat'', JString ''HH24'')]))
       \<in> set (fst (cbSetPreferences example_prefs_env example_factory Map.empty example_message))
   \<and> ValueChanged 1 ''timeFormat'' (JString ''HH24'')
       \<in> set (fst (cbSetPreferences example_prefs_env example_factory Map.empty example_message))"
    by blast
  from setPreferences_validated_and_notified [OF p o d m2 g2, of Map.empty] v2
  have b: "snd (cbSetPreferences example_prefs_env example_factory Map.empty example_message)
        ''hourFormat'' = None
   \<and> last (fst (cbSetPreferences example_prefs_env example_factory Map.empty example_message))
       = PrefsReply (prefsResult False ''Some settings could not be saved'')"
    by simp
  from p o d g1 g2 a b show ?thesis by (simp only: simp_thms)
qed

section \<open>The round trip through local time\<close>

lemma split_min3:
  fixes a :: int
  assumes "0 \<le> a" "a \<le> 4 * c" "0 < c"
  shows "0 \<le> a - min 3 (a div c) * c \<and> a - min 3 (a div c) * c \<le> c
         \<and> 0 \<le> min 3 (a div c) \<and> min 3 (a div c) \<le> 3"
proof -
  define q where "q = a div c"
  define r where "r = a mod c"
  have a: "a = q * c + r" by (simp add: q_def r_def)
  have r: "0 \<le> r" "r < c" using assms by (simp_all add: r_def)
  have q0: "0 \<le> q" using assms by (simp add: q_def pos_imp_zdiv_nonneg_iff)
  have q4: "q \<le> 4"
  proof (rule ccontr)
    assume "\<not> q \<le> 4"
    then have "5 \<le> q" by simp
    then have "5 * c \<le> q * c" using assms by simp
    with a r assms show False by linarith
  qed
  show ?thesis
  proof (cases "q \<le> 3")
    case True
    then have "min 3 q = q" by simp
    with a r q0 True show ?thesis unfolding q_def [symmetric] by simp
  next
    case False
    with q4 have q: "q = 4" by simp
    then have "min 3 q = 3" by simp
    moreover have "r = 0" using a q assms r by simp
    ultimately show ?thesis using a q assms unfolding q_def [symmetric] by simp
  qed
qed

lemma days_from_civil_civil_from_days:
  "days_from_civil (fst (civil_from_days z)) (fst (snd (civil_from_days z)))
     (snd (snd (civil_from_days z))) = z
   \<and> 1 \<le> fst (snd (civil_from_days z)) \<and> fst (snd (civil_from_days z)) \<le> 12"
proof -
  define z0 where "z0 = z + 719468"
  define era where "era = z0 div 146097"
  define doe where "doe = z0 mod 146097"
  define n100 where "n100 = min 3 (doe div 36524)"
  define r100 where "r100 = doe - n100 * 36524"
  define n4 where "n4 = r100 div 1461"
  define r4 where "r4 = r100 mod 1461"
  define n1 where "n1 = min 3 (r4 div 365)"
  define doy where "doy = r4 - 365 * n1"
  define yoe where "yoe = 100 * n100 + 4 * n4 + n1"
  define mp where "mp = (5 * doy + 2) div 153"
  define d where "d = doy - (153 * mp + 2) div 5 + 1"
  define m where "m = (if mp < 10 then mp + 3 else mp - 9)"
  define y where "y = yoe + era * 400 + (if m \<le> 2 then 1 else 0)"
  have cfd: "civil_from_days z = (y, m, d)"
    by (simp only: civil_from_days_def Let_def z0_def era_def doe_def n100_def r100_def
        n4_def r4_def n1_def doy_def yoe_def mp_def d_def m_def y_def)
  have z0: "z0 = era * 146097 + doe"
    by (simp add: era_def doe_def)
  have doe: "0 \<le> doe" "doe \<le> 4 * 36524"
    by (simp_all add: doe_def) 
  have c100: "0 \<le> r100 \<and> r100 \<le> 36524 \<and> 0 \<le> n100 \<and> n100 \<le> 3"
    unfolding r100_def n100_def using split_min3 [OF doe] by simp
  have r100: "r100 = n4 * 1461 + r4"
    by (simp add: n4_def r4_def)
  have r4: "0 \<le> r4" "r4 \<le> 4 * 365"
    by (simp_all add: r4_def)
  have n4: "0 \<le> n4" "n4 \<le> 24"
    using c100 r100 r4 by linarith+
  have c1: "0 \<le> doy \<and> doy \<le> 365 \<and> 0 \<le> n1 \<and> n1 \<le> 3"
    unfolding doy_def n1_def using split_min3 [OF r4] by (simp add: mult.commute)
  have yoe: "0 \<le> yoe" "yoe < 400"
    using c100 n4 c1 by (simp_all add: yoe_def)
  have yoe4: "yoe div 4 = 25 * n100 + n4"
    using c1 unfolding yoe_def by linarith
  have yoe100: "yoe div 100 = n100"
    using c1 n4 unfolding yoe_def by linarith
  have doe_eq: "doe = yoe * 365 + yoe div 4 - yoe div 100 + doy"
    unfolding yoe4 yoe100 unfolding yoe_def doy_def using r100 unfolding r100_def by (simp add: algebra_simps)
  have mp: "0 \<le> mp" "mp \<le> 11"
    using c1 unfolding mp_def by linarith+
  have m: "1 \<le> m" "m \<le> 12" "(if m > 2 then m - 3 else m + 9) = mp"
    using mp by (auto simp: m_def)
  have y0: "y - (if m \<le> 2 then 1 else 0) = yoe + era * 400"
    by (simp add: y_def)
  have era': "(yoe + era * 400) div 400 = era" and yoe': "(yoe + era * 400) mod 400 = yoe"
    using yoe by simp_all
  have "days_from_civil y m d = era * 146097 + doe - 719468"
    unfolding days_from_civil_def Let_def y0 era' yoe' m
    using doe_eq by (simp add: d_def)
  then show ?thesis using z0 m by (simp add: cfd z0_def)
qed

lemma time_of_day_split:
  "(x::int) div 86400 * 86400 + (x div 3600) mod 24 * 3600 + (x div 60) mod 60 * 60 + x mod 60 = x"
proof -
  have a: "x mod 86400 = 3600 * (x div 3600 mod 24) + x mod 3600"
    using zmod_zmult2_eq [of 24 x 3600] by simp
  have b: "x mod 3600 = 60 * (x div 60 mod 60) + x mod 60"
    using zmod_zmult2_eq [of 60 x 60] by simp
  have "x = x div 86400 * 86400 + x mod 86400" by simp
  with a b show ?thesis by linarith
qed

lemma secs_of_tm_of_secs: "secs_of_tm ((tm_of_secs x i)\<lparr>tm_isdst := j\<rparr>) = x"
proof -
  obtain y m d where cfd: "civil_from_days (x div 86400) = (y, m, d)"
    by (cases "civil_from_days (x div 86400)") auto
  from days_from_civil_civil_from_days [of "x div 86400"]
  have dfc: "days_from_civil y m d = x div 86400" and m: "1 \<le> m" "m \<le> 12"
    by (simp_all add: cfd)
  have mon: "(m - 1) div 12 = 0" "(m - 1) mod 12 + 1 = m"
    using m by simp_all
  show ?thesis
    using time_of_day_split [of x]
    by (simp add: secs_of_tm_def tm_of_secs_def Let_def cfd mon dfc)
qed

lemma secs_of_tm_of_secs_plain: "secs_of_tm (tm_of_secs x i) = x"
proof -
  have "(tm_of_secs x i)\<lparr>tm_isdst := i\<rparr> = tm_of_secs x i"
    by (simp add: tm_of_secs_def Let_def split: prod.splits)
  with secs_of_tm_of_secs [where x = x and i = i and j = i] show ?thesis by simp
qed

lemma to_time_t_sint: "to_time_t (sint (t::time_t)) = t"
  using sint_ge [of t] sint_lt [of t] by (simp add: to_time_t_def)

lemma to_time_t_cases:
  "to_time_t x \<noteq> - 1 \<Longrightarrow> sint (to_time_t x) = x"
proof -
  assume a: "to_time_t x \<noteq> - 1"
  then have r: "- (2 ^ 63) \<le> x" "x < 2 ^ 63"
    by (auto simp: to_time_t_def split: if_splits)
  then have "sint (word_of_int x :: time_t) = x"
    by (simp add: sint_sbintrunc' signed_take_bit_int_eq_self)
  with r show ?thesis by (simp add: to_time_t_def)
qed

lemma toLocal_ref_libc:
  "toLocal (ref_libc Z) t =
     (if year_fits (sint t + utc_offset Z (sint t))
      then to_time_t (sint t + utc_offset Z (sint t)) else - 1)"
  by (simp add: toLocal_def ref_libc_def ref_localtime_r_def ref_timegm_def Let_def
      secs_of_tm_of_secs_plain)

lemma toUtc_ref_libc:
  "toUtc (ref_libc Z) l =
     (if year_fits (sint l)
      then (if z_dst_active Z (sint l - z_dst_off Z)
            then to_time_t (sint l - z_dst_off Z)
            else to_time_t (sint l - z_std_off Z))
      else - 1)"
  by (simp add: toUtc_def ref_libc_def ref_gmtime_r_def ref_timelocal_def Let_def
      secs_of_tm_of_secs)

text \<open>
  Claim C9, as stated, fails: under Central European Time the instants 1635638400
  (2021-10-31 00:00 UTC, in daylight-saving time) and 1635642000 (01:00 UTC, in standard
  time) both read 02:00 on the wall clock, so \<open>toLocal\<close> maps both to 1635645600 and
  \<open>toUtc\<close> can give back only one of them; neither conversion returns \<open>-1\<close>.  With the
  library reading the shared wall-clock time as daylight-saving time, the round trip
  from 1635642000 ends at 1635638400.
\<close>

theorem toUtc_toLocal_counterexample:
  "toLocal (ref_libc cet_2021) 1635642000 = 1635645600
   \<and> toLocal (ref_libc cet_2021) 1635638400 = 1635645600
   \<and> toUtc (ref_libc cet_2021) (toLocal (ref_libc cet_2021) 1635642000) = 1635638400
   \<and> toLocal (ref_libc cet_2021) 1635642000 \<noteq> - 1
   \<and> toUtc (ref_libc cet_2021) (toLocal (ref_libc cet_2021) 1635642000) \<noteq> - 1
   \<and> toUtc (ref_libc cet_2021) (toLocal (ref_libc cet_2021) 1635642000) \<noteq> 1635642000"
  by code_simp

text \<open>
  Claim C9, amended.  Under the reference C library with any zone, for every \<open>t\<close> on which
  the conversions succeed (neither returns \<open>-1\<close>) and whose wall-clock reading no other
  instant shares, \<open>toUtc(toLocal(t)) = t\<close>.  Every instant of a zone without
  daylight-saving time is such a \<open>t\<close>; the instants of the hour repeated at the end of
  daylight-saving time are not.
\<close>

theorem toUtc_toLocal_unambiguous:
  assumes ok1: "toLocal (ref_libc Z) t \<noteq> - 1"
    and ok2: "toUtc (ref_libc Z) (toLocal (ref_libc Z) t) \<noteq> - 1"
    and unamb: "\<forall>u. u + utc_offset Z u = sint t + utc_offset Z (sint t) \<longrightarrow> u = sint t"
  shows "toUtc (ref_libc Z) (toLocal (ref_libc Z) t) = t"
proof -
  define x where "x = sint t + utc_offset Z (sint t)"
  from ok1 have l: "toLocal (ref_libc Z) t = to_time_t x" and lx: "to_time_t x \<noteq> - 1"
    and yf: "year_fits x"
    by (auto simp: toLocal_ref_libc x_def split: if_splits)
  have sx: "sint (to_time_t x) = x" using lx by (rule to_time_t_cases)
  define u where "u = (if z_dst_active Z (x - z_dst_off Z) then x - z_dst_off Z else x - z_std_off Z)"
  have r: "toUtc (ref_libc Z) (toLocal (ref_libc Z) t) = to_time_t u"
    by (simp add: l toUtc_ref_libc sx yf u_def)
  have "u = sint t"
  proof (cases "z_dst_active Z (x - z_dst_off Z)")
    case True
    then have "u + utc_offset Z u = x" by (simp add: u_def utc_offset_def)
    with unamb show ?thesis by (simp add: x_def)
  next
    case False
    then have u: "u = x - z_std_off Z" by (simp add: u_def)
    have "\<not> z_dst_active Z (sint t)"
    proof
      assume "z_dst_active Z (sint t)"
      then have "x - z_dst_off Z = sint t" by (simp add: x_def utc_offset_def)
      with False \<open>z_dst_active Z (sint t)\<close> show False by simp
    qed
    then show ?thesis by (simp add: u x_def utc_offset_def)
  qed
  then show ?thesis by (simp add: r to_time_t_sint)
qed

theorem toUtc_toLocal_unambiguous_witness:
  "toLocal (ref_libc cet_2021) 1625000000 \<noteq> - 1
   \<and> toUtc (ref_libc cet_2021) (toLocal (ref_libc cet_2021) 1625000000) \<noteq> - 1
   \<and> \<not> (\<exists>u. u + utc_offset cet_2021 u
              = sint (1625000000 :: time_t) + utc_offset cet_2021 (sint (1625000000 :: time_t))
            \<and> u \<noteq> sint (1625000000 :: time_t))
   \<and> toLocal (ref_libc cet_2021) 1625000000 = 1625007200
   \<and> toUtc (ref_libc cet_2021) (toLocal (ref_libc cet_2021) 1625000000) = 1625000000"
proof -
  have h1: "toLocal (ref_libc cet_2021) 1625000000 \<noteq> - 1" by code_simp
  have h2: "toUtc (ref_libc cet_2021) (toLocal (ref_libc cet_2021) 1625000000) \<noteq> - 1"
    by code_simp
  have h3: "\<forall>u. u + utc_offset cet_2021 u
            = sint (1625000000 :: time_t) + utc_offset cet_2021 (sint (1625000000 :: time_t))
          \<longrightarrow> u = sint (1625000000 :: time_t)"
    by (auto simp: utc_offset_def cet_2021_def split: if_splits)
  have l: "toLocal (ref_libc cet_2021) 1625000000 = 1625007200" by code_simp
  from h3 have h3': "\<not> (\<exists>u. u + utc_offset cet_2021 u
              = sint (1625000000 :: time_t) + utc_offset cet_2021 (sint (1625000000 :: time_t))
            \<and> u \<noteq> sint (1625000000 :: time_t))"
    by blast
  from toUtc_toLocal_unambiguous [OF h1 h2 h3] h1 h2 h3' l
  show ?thesis by (simp only: simp_thms)
qed

end
